theory Spec2Isabelle
  imports Main "HOL-Library.Sublist"
begin

section \<open>Data model of the Mollie API responses\<close>

text \<open>
  The interfaces \<open>Amount\<close> and \<open>Payment\<close> of \<open>payments-list.tsx\<close> and
  \<open>transactionsMenuBar.tsx\<close>. The fields \<open>value\<close>, \<open>id\<close> and \<open>method\<close> are written
  \<open>amount_value\<close>, \<open>payment_id\<close> and \<open>pay_method\<close>; \<open>_links.dashboard.href\<close> is
  \<open>dashboard_href\<close>. The status is the string the API delivers: the list compares it with
  the selected filter with \<open>===\<close>, and \<open>getStatusTag\<close> has a default branch for a status
  outside the eight literals of the type.
\<close>

record amount =
  amount_value :: string
  amount_currency :: string

record payment =
  payment_id :: string
  amount :: amount
  description :: string
  status :: string
  pay_method :: "string option"
  createdAt :: string
  dashboard_href :: string

section \<open>What the JavaScript runtime and the Raycast host supply\<close>

text \<open>
  A thrown value: an object that is \<open>instanceof Error\<close>, with its message, or any other
  value. The \<open>catch\<close> block of \<open>handleRefund\<close> tells the two apart.
\<close>

datatype thrown = ErrorObject string | OtherValue

text \<open>
  A parsed JSON value (what \<open>response.json()\<close> resolves to). \<open>'n\<close> is the runtime's
  Number type. An object is its members in source order; \<open>JSON.parse\<close> lets the last of
  two members with the same key win.
\<close>

datatype 'n json =
    JNull
  | JBool bool
  | JNumber 'n
  | JString string
  | JArray "'n json list"
  | JObject "(string \<times> 'n json) list"

datatype toast_style = Animated | Success | Failure

record toast =
  toast_style :: toast_style
  toast_title :: string
  toast_message :: "string option"

datatype alert_action_style = Default | Destructive | Cancel

record alert =
  alert_title :: string
  alert_message :: string
  primaryAction_title :: string
  primaryAction_style :: alert_action_style

text \<open>
  The arguments of a \<open>fetch\<close> call. \<open>request_body\<close> is the value handed to
  \<open>JSON.stringify\<close>.
\<close>

record 'n request =
  request_url :: string
  request_method :: string
  request_headers :: "(string \<times> string) list"
  request_body :: "'n json"

text \<open>
  A response as the code reads it: its status code and what \<open>response.json()\<close> settles
  to (a rejection when the body is not JSON).
\<close>

record 'n response =
  response_status :: nat
  response_json :: "thrown + 'n json"

datatype 'n fetch_outcome = FetchRejected thrown | FetchResolved "'n response"

text \<open>
  The functions of the runtime and of the host, and the answers of the user and of the
  network, as parameters of the model. Time values are milliseconds since the epoch;
  \<open>None\<close> is the time value \<open>NaN\<close> of an invalid date.
  \<^item> \<open>dateParse s\<close>: \<open>new Date(s).getTime()\<close>.
  \<^item> \<open>localMidnight t\<close>: the time value after \<open>setHours(0, 0, 0, 0)\<close> on a valid date
    with time value \<open>t\<close>.
  \<^item> \<open>toLocaleTimeString t\<close>:
    \<open>toLocaleTimeString("nl-NL", {hour: "2-digit", minute: "2-digit"})\<close>;
    \<open>toLocaleDateString t\<close>:
    \<open>toLocaleDateString("nl-NL", {day: "2-digit", month: "short"})\<close>, on a valid date.
  \<^item> \<open>parseFloat\<close>, \<open>numZero\<close> (the literal 0), \<open>numAdd\<close> (\<open>+\<close> on numbers),
    \<open>numTruthy\<close> (false on zero and NaN), \<open>numToString\<close>.
  \<^item> \<open>numberFormat v c\<close>: what
    \<open>new Intl.NumberFormat("nl-NL", {style: "currency", currency: c}).format(v)\<close> returns
    for a well-formed currency code; \<open>rangeErrorMessage c\<close> is the message of the
    RangeError the constructor throws otherwise.
  \<^item> \<open>nullReadMessage k\<close>: the message of the TypeError thrown on reading property
    \<open>k\<close> of \<open>null\<close>; \<open>primitiveErrorMessage\<close>: the message of the TypeError thrown
    when an object cannot be converted to a primitive value.
  \<^item> \<open>confirmAlert\<close>: the user's answer to a confirmation dialog (false when it is
    cancelled or dismissed); \<open>fetch\<close>: what a request settles to.
  The calls \<open>confirmAlert\<close>, \<open>showToast\<close> and \<open>revalidate\<close> themselves are taken to
  settle without throwing.
\<close>

record 'n host =
  dateParse :: "string \<Rightarrow> int option"
  localMidnight :: "int \<Rightarrow> int option"
  toLocaleTimeString :: "int \<Rightarrow> string"
  toLocaleDateString :: "int \<Rightarrow> string"
  parseFloat :: "string \<Rightarrow> 'n"
  numZero :: 'n
  numAdd :: "'n \<Rightarrow> 'n \<Rightarrow> 'n"
  numTruthy :: "'n \<Rightarrow> bool"
  numToString :: "'n \<Rightarrow> string"
  numberFormat :: "'n \<Rightarrow> string \<Rightarrow> string"
  rangeErrorMessage :: "string \<Rightarrow> string"
  nullReadMessage :: "string \<Rightarrow> string"
  primitiveErrorMessage :: string
  confirmAlert :: "alert \<Rightarrow> bool"
  fetch :: "'n request \<Rightarrow> 'n fetch_outcome"

subsection \<open>JavaScript semantics the code relies on\<close>

text \<open>
  ECMA-402 \<open>IsWellFormedCurrencyCode\<close>: three ASCII letters. \<open>Intl.NumberFormat\<close> throws a
  RangeError for any other currency.
\<close>

definition asciiLetter :: "char \<Rightarrow> bool" where
  "asciiLetter c = (c \<in> set ''ABCDEFGHIJKLMNOPQRSTUVWXYZabcdefghijklmnopqrstuvwxyz'')"

definition wellFormedCurrencyCode :: "string \<Rightarrow> bool" where
  "wellFormedCurrencyCode c = (length c = 3 \<and> list_all asciiLetter c)"

text \<open>
  The relational operators on time values: a comparison with \<open>NaN\<close> is false, and so is
  \<open>NaN === NaN\<close>.
\<close>

definition time_ge :: "int option \<Rightarrow> int option \<Rightarrow> bool" where
  "time_ge a b = (case (a, b) of (Some x, Some y) \<Rightarrow> y \<le> x | _ \<Rightarrow> False)"

definition time_strict_eq :: "int option \<Rightarrow> int option \<Rightarrow> bool" where
  "time_strict_eq a b = (case (a, b) of (Some x, Some y) \<Rightarrow> x = y | _ \<Rightarrow> False)"

text \<open>\<open>ToBoolean\<close> of a property read; \<open>None\<close> is \<open>undefined\<close>.\<close>

fun truthy :: "'n host \<Rightarrow> 'n json option \<Rightarrow> bool" where
  "truthy h None = False"
| "truthy h (Some JNull) = False"
| "truthy h (Some (JBool b)) = b"
| "truthy h (Some (JNumber n)) = numTruthy h n"
| "truthy h (Some (JString s)) = (s \<noteq> [])"
| "truthy h (Some (JArray xs)) = True"
| "truthy h (Some (JObject kvs)) = True"

fun joinComma :: "string list \<Rightarrow> string" where
  "joinComma [] = []"
| "joinComma [s] = s"
| "joinComma (s # t # ss) = s @ '','' @ joinComma (t # ss)"

text \<open>
  \<open>ToString\<close> of a JSON value, which \<open>new Error(v)\<close> applies to its argument. An array
  joins the strings of its elements with commas, a \<open>null\<close> element giving the empty
  string. An object without a member named \<open>toString\<close> answers through
  \<open>Object.prototype.toString\<close>. An object with such a member cannot be converted: the
  member is a JSON value and so not callable, \<open>valueOf\<close> (a member, or
  \<open>Object.prototype.valueOf\<close>, which returns the object) yields no primitive, and a
  TypeError is thrown. \<open>elementStrings\<close> converts the elements of an array from left
  to right and stops at the first that throws.
\<close>

fun toStringJS :: "'n host \<Rightarrow> 'n json \<Rightarrow> thrown + string"
  and elementStrings :: "'n host \<Rightarrow> 'n json list \<Rightarrow> thrown + string list" where
  "toStringJS h JNull = Inr ''null''"
| "toStringJS h (JBool b) = Inr (if b then ''true'' else ''false'')"
| "toStringJS h (JNumber n) = Inr (numToString h n)"
| "toStringJS h (JString s) = Inr s"
| "toStringJS h (JArray xs) =
     (case elementStrings h xs of Inl e \<Rightarrow> Inl e | Inr ss \<Rightarrow> Inr (joinComma ss))"
| "toStringJS h (JObject kvs) =
     (if map_of kvs ''toString'' = None then Inr ''[object Object]''
      else Inl (ErrorObject (primitiveErrorMessage h)))"
| "elementStrings h [] = Inr []"
| "elementStrings h (x # xs) =
     (case (if x = JNull then Inr [] else toStringJS h x) of
        Inl e \<Rightarrow> Inl e
      | Inr s \<Rightarrow>
          (case elementStrings h xs of Inl e \<Rightarrow> Inl e | Inr ss \<Rightarrow> Inr (s # ss)))"

text \<open>
  A property read \<open>v.k\<close> on a JSON value, for a key that no prototype defines: it throws a
  TypeError on \<open>null\<close>, finds the member of an object, and is \<open>undefined\<close> on every other
  value.
\<close>

fun getProp :: "'n host \<Rightarrow> 'n json \<Rightarrow> string \<Rightarrow> thrown + 'n json option" where
  "getProp h JNull k = Inl (ErrorObject (nullReadMessage h k))"
| "getProp h (JObject kvs) k = Inr (map_of (rev kvs) k)"
| "getProp h v k = Inr None"

text \<open>A status code in a template literal: its decimal digits.\<close>

fun decimal :: "nat \<Rightarrow> string" where
  "decimal n =
     (if n < 10 then [''0123456789'' ! n]
      else decimal (n div 10) @ [''0123456789'' ! (n mod 10)])"

declare decimal.simps [simp del]

text \<open>\<open>response.ok\<close>: the status is in the range 200 to 299.\<close>

definition response_ok :: "'n response \<Rightarrow> bool" where
  "response_ok r = (200 \<le> response_status r \<and> response_status r \<le> 299)"

section \<open>Filter engine (payments-list.tsx, lines 136 and 192-197)\<close>

text \<open>
  \<open>const allPayments = data?._embedded?.payments || []\<close>: the fetched collection, the empty
  list while nothing has been fetched.
\<close>

definition allPayments :: "payment list option \<Rightarrow> payment list" where
  "allPayments data = (case data of None \<Rightarrow> [] | Some payments \<Rightarrow> payments)"

text \<open>
  The \<open>useMemo\<close> callback of \<open>filteredPayments\<close>, as a function of its two dependencies.
\<close>

definition filteredPayments :: "payment list \<Rightarrow> string \<Rightarrow> payment list" where
  "filteredPayments payments statusFilter =
     (if statusFilter = ''all'' then payments
      else filter (\<lambda>payment. status payment = statusFilter) payments)"

section \<open>Currency and date formatting\<close>

text \<open>
  \<open>formatCurrency\<close> of \<open>transactionsMenuBar.tsx\<close> (lines 33-35), which takes a number.
\<close>

definition formatCurrency_menuBar :: "'n host \<Rightarrow> 'n \<Rightarrow> string \<Rightarrow> thrown + string" where
  "formatCurrency_menuBar h v currency =
     (if wellFormedCurrencyCode currency then Inr (numberFormat h v currency)
      else Inl (ErrorObject (rangeErrorMessage h currency)))"

text \<open>
  \<open>formatCurrency\<close> of \<open>payments-list.tsx\<close> (lines 34-36), which takes the amount's string
  and parses it.
\<close>

definition formatCurrency :: "'n host \<Rightarrow> string \<Rightarrow> string \<Rightarrow> thrown + string" where
  "formatCurrency h v currency =
     (if wellFormedCurrencyCode currency then Inr (numberFormat h (parseFloat h v) currency)
      else Inl (ErrorObject (rangeErrorMessage h currency)))"

text \<open>
  \<open>formatDateTime\<close> (\<open>payments-list.tsx\<close>, lines 39-54). \<open>now\<close> is the time value of
  \<open>new Date()\<close>. An invalid date stays invalid under \<open>setHours\<close>, and its
  \<open>toLocaleDateString\<close> is the text "Invalid Date".
\<close>

definition formatDateTime :: "'n host \<Rightarrow> int \<Rightarrow> string \<Rightarrow> string" where
  "formatDateTime h now dateString =
     (let date = dateParse h dateString;
          todayTimestamp = localMidnight h now;
          paymentDate = (case date of None \<Rightarrow> None | Some t \<Rightarrow> localMidnight h t)
      in if time_strict_eq paymentDate todayTimestamp
         then (case date of None \<Rightarrow> ''Invalid Date'' | Some t \<Rightarrow> toLocaleTimeString h t)
         else (case date of None \<Rightarrow> ''Invalid Date'' | Some t \<Rightarrow> toLocaleDateString h t))"

section \<open>Revenue aggregator (transactionsMenuBar.tsx, lines 58-80)\<close>

record summary =
  totalAmount :: string
  transactionCount :: nat

text \<open>
  The \<open>useMemo\<close> callback that computes \<open>totalAmount\<close> and \<open>transactionCount\<close>, as a
  function of the fetched data (\<open>None\<close> when \<open>data?._embedded?.payments\<close> is undefined)
  and of the clock. \<open>currency\<close> follows
  \<open>todayPaidPayments[0]?.amount.currency || "EUR"\<close>: an empty string is falsy.
\<close>

definition aggregateToday :: "'n host \<Rightarrow> int \<Rightarrow> payment list option \<Rightarrow> thrown + summary" where
  "aggregateToday h now data =
     (case data of
        None \<Rightarrow>
          (case formatCurrency_menuBar h (numZero h) ''EUR'' of
             Inl e \<Rightarrow> Inl e
           | Inr s \<Rightarrow> Inr \<lparr>totalAmount = s, transactionCount = 0\<rparr>)
      | Some payments \<Rightarrow>
          (let todayTimestamp = localMidnight h now;
               todayPaidPayments =
                 filter (\<lambda>p. status p = ''paid''
                             \<and> time_ge (dateParse h (createdAt p)) todayTimestamp) payments;
               total = foldl (\<lambda>sum p. numAdd h sum (parseFloat h (amount_value (amount p))))
                         (numZero h) todayPaidPayments;
               currency =
                 (case todayPaidPayments of
                    [] \<Rightarrow> ''EUR''
                  | p # _ \<Rightarrow>
                      if amount_currency (amount p) \<noteq> [] then amount_currency (amount p)
                      else ''EUR'')
           in case formatCurrency_menuBar h total currency of
                Inl e \<Rightarrow> Inl e
              | Inr s \<Rightarrow> Inr \<lparr>totalAmount = s, transactionCount = length todayPaidPayments\<rparr>))"

text \<open>
  The aggregate in the words of the specification: a payment qualifies when its status is
  "paid" and its creation time is a valid time on or after today's local midnight.
\<close>

definition qualifiesToday :: "'n host \<Rightarrow> int \<Rightarrow> payment \<Rightarrow> bool" where
  "qualifiesToday h now p =
     (status p = ''paid'' \<and>
      (case dateParse h (createdAt p) of
         None \<Rightarrow> False
       | Some t \<Rightarrow> (case localMidnight h now of None \<Rightarrow> False | Some m \<Rightarrow> m \<le> t)))"

section \<open>Refund workflow (payments-list.tsx, lines 139-189)\<close>

text \<open>
  The calls the component makes on the host, in order, and the state they act on: the
  collection \<open>useFetch\<close> holds, the toast on screen (the object \<open>showToast\<close> returned, which
  the code then mutates), and the log of calls.
\<close>

datatype 'n call =
    CallConfirmAlert alert
  | CallShowToast toast
  | CallFetch "'n request"
  | CallRevalidate
  | CallOpen string
  | CallCopy string

record 'n world =
  fetched :: "payment list option"
  shownToast :: "toast option"
  calls :: "'n call list"

definition call_confirmAlert :: "'n host \<Rightarrow> alert \<Rightarrow> 'n world \<Rightarrow> bool \<times> 'n world" where
  "call_confirmAlert h a w = (confirmAlert h a, w\<lparr>calls := calls w @ [CallConfirmAlert a]\<rparr>)"

definition call_showToast :: "toast \<Rightarrow> 'n world \<Rightarrow> 'n world" where
  "call_showToast t w = w\<lparr>shownToast := Some t, calls := calls w @ [CallShowToast t]\<rparr>"

definition call_fetch :: "'n host \<Rightarrow> 'n request \<Rightarrow> 'n world \<Rightarrow> 'n fetch_outcome \<times> 'n world" where
  "call_fetch h r w = (fetch h r, w\<lparr>calls := calls w @ [CallFetch r]\<rparr>)"

definition call_revalidate :: "'n world \<Rightarrow> 'n world" where
  "call_revalidate w = w\<lparr>calls := calls w @ [CallRevalidate]\<rparr>"

text \<open>An assignment to a field of the toast object.\<close>

definition update_toast :: "(toast \<Rightarrow> toast) \<Rightarrow> 'n world \<Rightarrow> 'n world" where
  "update_toast f w = w\<lparr>shownToast := map_option f (shownToast w)\<rparr>"

text \<open>The argument of \<open>confirmAlert\<close> (lines 140-147), given the formatted amount.\<close>

definition refundAlert :: "string \<Rightarrow> payment \<Rightarrow> alert" where
  "refundAlert formatted payment =
     \<lparr>alert_title = ''Refund Payment'',
      alert_message =
        ''Are you sure you want to refund '' @ formatted @ '' for '' @ [CHR 0x22]
        @ (if description payment \<noteq> [] then description payment else ''No description'')
        @ [CHR 0x22] @ ''?'',
      primaryAction_title = ''Refund'',
      primaryAction_style = Destructive\<rparr>"

text \<open>The arguments of \<open>fetch\<close> (lines 159-171).\<close>

definition refundRequest :: "string \<Rightarrow> payment \<Rightarrow> 'n request" where
  "refundRequest accessToken payment =
     \<lparr>request_url = ''https://api.mollie.com/v2/payments/'' @ payment_id payment @ ''/refunds'',
      request_method = ''POST'',
      request_headers =
        [(''Authorization'', ''Bearer '' @ accessToken),
         (''Content-Type'', ''application/json'')],
      request_body =
        JObject [(''amount'',
          JObject [(''currency'', JString (amount_currency (amount payment))),
                   (''value'', JString (amount_value (amount payment)))])]\<rparr>"

text \<open>
  The argument of \<open>new Error\<close> on line 175,
  \<open>errorData.detail || errorData.title || `HTTP error! Status: ${response.status}`\<close>:
  the value of the chain, marked with the operand it is the value of. The chain yields
  \<open>detail\<close> if it is truthy, else \<open>title\<close> if it is truthy, else the template literal,
  which is evaluated only then. Reading \<open>detail\<close> of \<open>null\<close> throws instead.
\<close>

datatype 'n operand = DetailOperand "'n json" | TitleOperand "'n json" | StatusOperand string

definition refundErrorOperand :: "'n host \<Rightarrow> 'n json \<Rightarrow> nat \<Rightarrow> thrown + 'n operand" where
  "refundErrorOperand h errorData code =
     (case getProp h errorData ''detail'' of
        Inl e \<Rightarrow> Inl e
      | Inr detail \<Rightarrow>
          (case (if truthy h detail then detail else None) of
             Some v \<Rightarrow> Inr (DetailOperand v)
           | None \<Rightarrow>
               (case getProp h errorData ''title'' of
                  Inl e \<Rightarrow> Inl e
                | Inr title \<Rightarrow>
                    (case (if truthy h title then title else None) of
                       Some v \<Rightarrow> Inr (TitleOperand v)
                     | None \<Rightarrow> Inr (StatusOperand (''HTTP error! Status: '' @ decimal code))))))"

text \<open>
  The message of the error \<open>new Error\<close> builds from that argument: its \<open>ToString\<close>,
  which may throw.
\<close>

definition operandText :: "'n host \<Rightarrow> 'n operand \<Rightarrow> thrown + string" where
  "operandText h a =
     (case a of
        DetailOperand v \<Rightarrow> toStringJS h v
      | TitleOperand v \<Rightarrow> toStringJS h v
      | StatusOperand s \<Rightarrow> Inr s)"

definition refundErrorMessage :: "'n host \<Rightarrow> 'n json \<Rightarrow> nat \<Rightarrow> thrown + string" where
  "refundErrorMessage h errorData code =
     (case refundErrorOperand h errorData code of
        Inl e \<Rightarrow> Inl e
      | Inr a \<Rightarrow> operandText h a)"

text \<open>
  The \<open>try\<close> block (lines 158-183): the value thrown, if any, and the state at that point.
\<close>

definition handleRefund_try ::
  "'n host \<Rightarrow> string \<Rightarrow> payment \<Rightarrow> 'n world \<Rightarrow> thrown option \<times> 'n world" where
  "handleRefund_try h accessToken payment w =
     (let (outcome, w1) = call_fetch h (refundRequest accessToken payment) w
      in case outcome of
           FetchRejected e \<Rightarrow> (Some e, w1)
         | FetchResolved response \<Rightarrow>
             if \<not> response_ok response then
               (case response_json response of
                  Inl e \<Rightarrow> (Some e, w1)
                | Inr errorData \<Rightarrow>
                    (case refundErrorMessage h errorData (response_status response) of
                       Inl e \<Rightarrow> (Some e, w1)
                     | Inr msg \<Rightarrow> (Some (ErrorObject msg), w1)))
             else
               (let w2 = update_toast (\<lambda>t. t\<lparr>toast_style := Success\<rparr>) w1;
                    w3 = update_toast (\<lambda>t. t\<lparr>toast_title := ''Refund Successful''\<rparr>) w2
                in case formatCurrency h (amount_value (amount payment))
                          (amount_currency (amount payment)) of
                     Inl e \<Rightarrow> (Some e, w3)
                   | Inr s \<Rightarrow>
                       (None,
                        call_revalidate
                          (update_toast (\<lambda>t. t\<lparr>toast_message := Some (''Refunded '' @ s)\<rparr>) w3))))"

text \<open>
  The \<open>catch\<close> block (lines 184-188); \<open>caughtMessage\<close> is
  \<open>error instanceof Error ? error.message : "An unknown error occurred."\<close>.
\<close>

definition caughtMessage :: "thrown \<Rightarrow> string" where
  "caughtMessage error =
     (case error of ErrorObject m \<Rightarrow> m | OtherValue \<Rightarrow> ''An unknown error occurred.'')"

definition handleRefund_catch :: "thrown \<Rightarrow> 'n world \<Rightarrow> 'n world" where
  "handleRefund_catch error w =
     update_toast (\<lambda>t. t\<lparr>toast_message := Some (caughtMessage error)\<rparr>)
       (update_toast (\<lambda>t. t\<lparr>toast_title := ''Refund Failed''\<rparr>)
          (update_toast (\<lambda>t. t\<lparr>toast_style := Failure\<rparr>) w))"

text \<open>
  \<open>handleRefund\<close>. \<open>Inl\<close> is a rejection of the promise it returns: only the
  \<open>formatCurrency\<close> call in the dialog's message, outside the \<open>try\<close>, can throw.
\<close>

definition handleRefund :: "'n host \<Rightarrow> string \<Rightarrow> payment \<Rightarrow> 'n world \<Rightarrow> thrown + 'n world" where
  "handleRefund h accessToken payment w =
     (case formatCurrency h (amount_value (amount payment)) (amount_currency (amount payment)) of
        Inl e \<Rightarrow> Inl e
      | Inr formatted \<Rightarrow>
          (let (confirmed, w1) = call_confirmAlert h (refundAlert formatted payment) w
           in if \<not> confirmed then Inr w1
              else
                (let w2 = call_showToast
                            \<lparr>toast_style = Animated, toast_title = ''Processing refund...'',
                             toast_message = None\<rparr> w1
                 in case handleRefund_try h accessToken payment w2 of
                      (None, w3) \<Rightarrow> Inr w3
                    | (Some error, w3) \<Rightarrow> Inr (handleRefund_catch error w3))))"

section \<open>Row actions (payments-list.tsx, lines 246-265)\<close>

datatype row_action =
    OpenInBrowser string string
  | RefundPayment payment
  | CopyToClipboard string string

text \<open>
  The children of the \<open>ActionPanel\<close> of a payment's row, in order; \<open>RefundPayment p\<close> is
  the action titled "Refund Payment", whose \<open>onAction\<close> is \<open>handleRefund(p)\<close>. Rendering
  the row throws when \<open>formatCurrency\<close> does.
\<close>

definition rowActions :: "'n host \<Rightarrow> payment \<Rightarrow> thrown + row_action list" where
  "rowActions h payment =
     (case formatCurrency h (amount_value (amount payment)) (amount_currency (amount payment)) of
        Inl e \<Rightarrow> Inl e
      | Inr formatted \<Rightarrow>
          Inr ([OpenInBrowser (dashboard_href payment) ''Open in Mollie Dashboard'']
               @ (if status payment = ''paid'' then [RefundPayment payment] else [])
               @ [CopyToClipboard ''Copy Payment Id to Clipboard'' (payment_id payment),
                  CopyToClipboard ''Copy Amount to Clipboard'' formatted]))"

text \<open>What selecting an action of a row does.\<close>

definition onAction :: "'n host \<Rightarrow> string \<Rightarrow> row_action \<Rightarrow> 'n world \<Rightarrow> thrown + 'n world" where
  "onAction h accessToken a w =
     (case a of
        OpenInBrowser u t \<Rightarrow> Inr (w\<lparr>calls := calls w @ [CallOpen u]\<rparr>)
      | RefundPayment p \<Rightarrow> handleRefund h accessToken p w
      | CopyToClipboard t c \<Rightarrow> Inr (w\<lparr>calls := calls w @ [CallCopy c]\<rparr>))"

text \<open>The requests and the re-fetch triggers in a log of calls.\<close>

fun fetchesOf :: "'n call list \<Rightarrow> 'n request list" where
  "fetchesOf [] = []"
| "fetchesOf (CallFetch r # cs) = r # fetchesOf cs"
| "fetchesOf (c # cs) = fetchesOf cs"

fun revalidationsOf :: "'n call list \<Rightarrow> nat" where
  "revalidationsOf [] = 0"
| "revalidationsOf (CallRevalidate # cs) = Suc (revalidationsOf cs)"
| "revalidationsOf (c # cs) = revalidationsOf cs"

text \<open>
  A refund on a payment is confirmed when its dialog is shown and answered with "Refund",
  and declined when the dialog is shown and dismissed.
\<close>

definition refundConfirmed :: "'n host \<Rightarrow> payment \<Rightarrow> bool" where
  "refundConfirmed h payment =
     (case formatCurrency h (amount_value (amount payment)) (amount_currency (amount payment)) of
        Inl e \<Rightarrow> False
      | Inr formatted \<Rightarrow> confirmAlert h (refundAlert formatted payment))"

definition refundDeclined :: "'n host \<Rightarrow> payment \<Rightarrow> bool" where
  "refundDeclined h payment =
     (case formatCurrency h (amount_value (amount payment)) (amount_currency (amount payment)) of
        Inl e \<Rightarrow> False
      | Inr formatted \<Rightarrow> \<not> confirmAlert h (refundAlert formatted payment))"

section \<open>A concrete host and concrete payments\<close>

text \<open>
  A host in the UTC time zone whose numbers are amounts in cents, on 2 May 2024: it knows
  the dates and amounts of the payments below, the user confirms every dialog and the
  refund request is answered with 201.
\<close>

definition twoDigits :: "nat \<Rightarrow> string" where
  "twoDigits n = (if n < 10 then ''0'' @ decimal n else decimal n)"

definition utcHost :: "int host" where
  "utcHost =
     \<lparr>dateParse = map_of
        [(''2024-05-02T08:00:00Z'', 1714636800000),
         (''2024-05-02T09:30:00Z'', 1714642200000),
         (''2024-05-02T00:00:00Z'', 1714608000000),
         (''2024-05-01T12:00:00Z'', 1714564800000)],
      localMidnight = (\<lambda>t. Some (t - t mod 86400000)),
      toLocaleTimeString =
        (\<lambda>t. twoDigits (nat (t mod 86400000 div 3600000)) @ '':''
              @ twoDigits (nat (t mod 3600000 div 60000))),
      toLocaleDateString =
        (\<lambda>t. if t div 86400000 = 19845 then ''02 mei''
              else if t div 86400000 = 19844 then ''01 mei'' else ''-''),
      parseFloat =
        (\<lambda>s. case map_of [(''10.00'', 1000), (''5.50'', 550), (''3.00'', 300), (''7.25'', 725)] s of
               None \<Rightarrow> 0 | Some c \<Rightarrow> c),
      numZero = 0,
      numAdd = (+),
      numTruthy = (\<lambda>n. n \<noteq> 0),
      numToString = (\<lambda>n. decimal (nat n)),
      numberFormat =
        (\<lambda>v c. c @ '' '' @ decimal (nat (v div 100)) @ '','' @ twoDigits (nat (v mod 100))),
      rangeErrorMessage = (\<lambda>c. ''Invalid currency code : '' @ c),
      nullReadMessage = (\<lambda>k. ''Cannot read properties of null (reading '' @ k @ '')''),
      primitiveErrorMessage = ''Cannot convert object to primitive value'',
      confirmAlert = (\<lambda>a. True),
      fetch = (\<lambda>r. FetchResolved
                 \<lparr>response_status = 201,
                  response_json = Inr (JObject [(''resource'', JString ''refund'')])\<rparr>)\<rparr>"

definition utcNow :: int where
  "utcNow = 1714644000000"

definition payMorning :: payment where
  "payMorning =
     \<lparr>payment_id = ''tr_1'', amount = \<lparr>amount_value = ''10.00'', amount_currency = ''EUR''\<rparr>,
      description = ''Order 1'', status = ''paid'', pay_method = Some ''ideal'',
      createdAt = ''2024-05-02T08:00:00Z'', dashboard_href = ''https://my.mollie.com/tr_1''\<rparr>"

definition payLater :: payment where
  "payLater =
     \<lparr>payment_id = ''tr_2'', amount = \<lparr>amount_value = ''5.50'', amount_currency = ''EUR''\<rparr>,
      description = [], status = ''paid'', pay_method = None,
      createdAt = ''2024-05-02T09:30:00Z'', dashboard_href = ''https://my.mollie.com/tr_2''\<rparr>"

definition payYesterday :: payment where
  "payYesterday =
     \<lparr>payment_id = ''tr_3'', amount = \<lparr>amount_value = ''3.00'', amount_currency = ''EUR''\<rparr>,
      description = ''Order 3'', status = ''paid'', pay_method = Some ''creditcard'',
      createdAt = ''2024-05-01T12:00:00Z'', dashboard_href = ''https://my.mollie.com/tr_3''\<rparr>"

definition payOpen :: payment where
  "payOpen =
     \<lparr>payment_id = ''tr_4'', amount = \<lparr>amount_value = ''7.25'', amount_currency = ''EUR''\<rparr>,
      description = ''Order 4'', status = ''open'', pay_method = Some ''paypal'',
      createdAt = ''2024-05-02T00:00:00Z'', dashboard_href = ''https://my.mollie.com/tr_4''\<rparr>"

text \<open>
  The same host with a user who dismisses the dialog, with a refund answered by 422 and
  a structured error, with a refund answered by 502 and a body that is not JSON, with a
  refund answered by 400 and an error whose detail is an object with a member
  \<open>toString\<close>, and with a refund answered by 500 and an error whose detail is empty.
\<close>

definition decliningHost :: "int host" where
  "decliningHost = utcHost\<lparr>confirmAlert := (\<lambda>a. False)\<rparr>"

definition rejectingHost :: "int host" where
  "rejectingHost =
     utcHost\<lparr>fetch := (\<lambda>r. FetchResolved
        \<lparr>response_status = 422,
         response_json = Inr (JObject [(''status'', JNumber 422),
                                       (''title'', JString ''Unprocessable Entity''),
                                       (''detail'', JString ''insufficient balance'')])\<rparr>)\<rparr>"

definition badGatewayHost :: "int host" where
  "badGatewayHost =
     utcHost\<lparr>fetch := (\<lambda>r. FetchResolved
        \<lparr>response_status = 502,
         response_json = Inl (ErrorObject ''Unexpected token < in JSON at position 0'')\<rparr>)\<rparr>"

definition unconvertibleHost :: "int host" where
  "unconvertibleHost =
     utcHost\<lparr>fetch := (\<lambda>r. FetchResolved
        \<lparr>response_status = 400,
         response_json = Inr (JObject [(''detail'', JObject [(''toString'', JNumber 1)]),
                                       (''title'', JString ''Bad Request'')])\<rparr>)\<rparr>"

definition serverErrorHost :: "int host" where
  "serverErrorHost =
     utcHost\<lparr>fetch := (\<lambda>r. FetchResolved
        \<lparr>response_status = 500, response_json = Inr (JObject [(''detail'', JString [])])\<rparr>)\<rparr>"

definition emptyWorld :: "int world" where
  "emptyWorld =
     \<lparr>fetched = Some [payMorning, payOpen, payLater, payYesterday], shownToast = None, calls = []\<rparr>"

section \<open>Properties of the filter engine\<close>

text \<open>
  C7. Filtering any payment collection with the selector "all" returns the collection itself:
  the same payments in the same order.
\<close>

theorem filteredPayments_all_identity:
  "filteredPayments C ''all'' = C"
  by (simp add: filteredPayments_def)

text \<open>
  C8. For a selector \<open>S\<close> other than "all", every payment of the filtered collection has
  status \<open>S\<close>, the filtered collection is a subsequence of the input (relative order kept),
  it contains exactly the payments of the input with status \<open>S\<close>, and filtering twice gives
  the same as filtering once.
\<close>

theorem filteredPayments_status:
  assumes "S \<noteq> ''all''"
  shows "(\<forall>p \<in> set (filteredPayments C S). status p = S)
       \<and> subseq (filteredPayments C S) C
       \<and> set (filteredPayments C S) = {p \<in> set C. status p = S}
       \<and> filteredPayments (filteredPayments C S) S = filteredPayments C S"
  using assms by (auto simp: filteredPayments_def)

text \<open>On the payments above, the selector "paid" keeps the three paid ones in order.\<close>

theorem filteredPayments_status_witness:
  "''paid'' \<noteq> ''all''
   \<and> filteredPayments [payMorning, payOpen, payLater, payYesterday] ''paid''
       = [payMorning, payLater, payYesterday]
   \<and> subseq (filteredPayments [payMorning, payOpen, payLater, payYesterday] ''paid'')
        [payMorning, payOpen, payLater, payYesterday]
   \<and> filteredPayments (filteredPayments [payMorning, payOpen, payLater, payYesterday] ''paid'')
        ''paid''
       = filteredPayments [payMorning, payOpen, payLater, payYesterday] ''paid''"
proof -
  have "''paid'' \<noteq> ''all''" by simp
  from filteredPayments_status [OF this, of "[payMorning, payOpen, payLater, payYesterday]"]
  show ?thesis
    by (simp add: filteredPayments_def payMorning_def payOpen_def payLater_def payYesterday_def)
qed

section \<open>Properties of the revenue aggregator\<close>

lemma todayPaid_filter:
  "(status p = ''paid'' \<and> time_ge (dateParse h (createdAt p)) (localMidnight h now))
     = qualifiesToday h now p"
  by (auto simp: time_ge_def qualifiesToday_def split: option.splits)

lemma wellFormed_nonempty: "wellFormedCurrencyCode c \<Longrightarrow> c \<noteq> []"
  by (auto simp: wellFormedCurrencyCode_def)

lemma wellFormed_EUR: "wellFormedCurrencyCode ''EUR''"
  by (simp add: wellFormedCurrencyCode_def asciiLetter_def)

lemma foldl_total:
  "foldl (\<lambda>sum p. numAdd h sum (parseFloat h (amount_value (amount p)))) z ps
     = foldl (numAdd h) z (map (\<lambda>p. parseFloat h (amount_value (amount p))) ps)"
  by (induction ps arbitrary: z) simp_all

text \<open>
  C1. Let \<open>Q\<close> be the payments of the collection that qualify (status "paid", created at a
  valid time on or after today's local midnight, with no upper bound), in the collection's
  order. When the first of them carries a well-formed currency code (three letters, as
  every ISO 4217 code is), the aggregate reports the count \<open>length Q\<close> and the total that
  is the sum of the parsed amounts of \<open>Q\<close>, added from zero in the collection's order with
  the runtime's addition and formatted in the currency of the first payment of \<open>Q\<close>. When
  no payment qualifies, the total is zero formatted in "EUR" and the count is 0.
\<close>

theorem aggregateToday_total_count:
  assumes "case filter (qualifiesToday h now) C of
             [] \<Rightarrow> True
           | p # _ \<Rightarrow> wellFormedCurrencyCode (amount_currency (amount p))"
  shows "aggregateToday h now (Some C) =
           Inr \<lparr>totalAmount =
                  numberFormat h
                    (foldl (numAdd h) (numZero h)
                       (map (\<lambda>p. parseFloat h (amount_value (amount p)))
                          (filter (qualifiesToday h now) C)))
                    (case filter (qualifiesToday h now) C of
                       [] \<Rightarrow> ''EUR''
                     | p # _ \<Rightarrow> amount_currency (amount p)),
                transactionCount = length (filter (qualifiesToday h now) C)\<rparr>
       \<and> (filter (qualifiesToday h now) C = [] \<longrightarrow>
            aggregateToday h now (Some C) =
              Inr \<lparr>totalAmount = numberFormat h (numZero h) ''EUR'', transactionCount = 0\<rparr>)"
proof -
  let ?Q = "filter (qualifiesToday h now) C"
  have sel: "filter (\<lambda>p. status p = ''paid''
               \<and> time_ge (dateParse h (createdAt p)) (localMidnight h now)) C = ?Q"
    by (simp add: todayPaid_filter)
  show ?thesis
  proof (cases ?Q)
    case Nil
    then show ?thesis
      by (simp add: aggregateToday_def sel formatCurrency_menuBar_def wellFormed_EUR)
  next
    case (Cons p ps)
    with assms have wf: "wellFormedCurrencyCode (amount_currency (amount p))" by simp
    then have "amount_currency (amount p) \<noteq> []" by (rule wellFormed_nonempty)
    with Cons wf show ?thesis
      by (simp add: aggregateToday_def sel formatCurrency_menuBar_def foldl_total Let_def)
  qed
qed

lemma qualifying_example:
  "filter (qualifiesToday utcHost utcNow) [payMorning, payOpen, payLater, payYesterday]
     = [payMorning, payLater]"
  by (simp add: qualifiesToday_def utcHost_def utcNow_def payMorning_def payOpen_def
      payLater_def payYesterday_def)

text \<open>
  Two payments paid today of 10.00 and 5.50 EUR, one paid yesterday and one open: the
  aggregate is 15.50 EUR over 2 transactions.
\<close>

theorem aggregateToday_total_count_witness:
  "aggregateToday utcHost utcNow (Some [payMorning, payOpen, payLater, payYesterday])
     = Inr \<lparr>totalAmount = ''EUR 15,50'', transactionCount = 2\<rparr>"
proof -
  have wf: "case filter (qualifiesToday utcHost utcNow)
                   [payMorning, payOpen, payLater, payYesterday] of
              [] \<Rightarrow> True
            | p # _ \<Rightarrow> wellFormedCurrencyCode (amount_currency (amount p))"
    unfolding qualifying_example by (simp add: wellFormed_EUR payMorning_def)
  from aggregateToday_total_count [OF wf, unfolded qualifying_example]
  have "aggregateToday utcHost utcNow (Some [payMorning, payOpen, payLater, payYesterday]) =
          Inr \<lparr>totalAmount =
                 numberFormat utcHost
                   (foldl (numAdd utcHost) (numZero utcHost)
                      (map (\<lambda>p. parseFloat utcHost (amount_value (amount p)))
                         [payMorning, payLater]))
                   (amount_currency (amount payMorning)),
               transactionCount = 2\<rparr>"
    by simp
  then show ?thesis
    by (simp add: utcHost_def payMorning_def payLater_def twoDigits_def decimal.simps)
qed

section \<open>Properties of the row actions\<close>

lemma fetchesOf_append: "fetchesOf (xs @ ys) = fetchesOf xs @ fetchesOf ys"
  by (induction xs rule: fetchesOf.induct) simp_all

lemma revalidationsOf_append:
  "revalidationsOf (xs @ ys) = revalidationsOf xs + revalidationsOf ys"
  by (induction xs rule: revalidationsOf.induct) simp_all

text \<open>
  C2. In the row of a payment, the action "Refund Payment" is present exactly when the
  payment's status is "paid", and it refunds that payment: whenever the row renders, a
  refund action for \<open>q\<close> is among its actions if and only if \<open>q\<close> is the row's payment and
  its status is "paid". The row renders whenever the currency is a well-formed code. No
  action of a row whose payment has another status sends a request: an action that adds a
  request to the log belongs to a paid payment. This holds for every payment, so for every
  payment of the rendered (filtered) list.
\<close>

theorem refund_offered_iff_paid:
  "(\<forall>as. rowActions h p = Inr as \<longrightarrow>
      (\<forall>q. RefundPayment q \<in> set as \<longleftrightarrow> q = p \<and> status p = ''paid''))
   \<and> (wellFormedCurrencyCode (amount_currency (amount p)) \<longrightarrow> (\<exists>as. rowActions h p = Inr as))
   \<and> (\<forall>as a w w'. rowActions h p = Inr as \<and> a \<in> set as \<and> onAction h tok a w = Inr w'
          \<and> fetchesOf (calls w') \<noteq> fetchesOf (calls w) \<longrightarrow> status p = ''paid'')"
proof (intro conjI allI impI)
  fix as q assume "rowActions h p = Inr as"
  then show "RefundPayment q \<in> set as \<longleftrightarrow> q = p \<and> status p = ''paid''"
    by (auto simp: rowActions_def split: sum.splits if_splits)
next
  assume "wellFormedCurrencyCode (amount_currency (amount p))"
  then show "\<exists>as. rowActions h p = Inr as"
    by (simp add: rowActions_def formatCurrency_def)
next
  fix as a w w'
  assume a: "rowActions h p = Inr as \<and> a \<in> set as \<and> onAction h tok a w = Inr w'
          \<and> fetchesOf (calls w') \<noteq> fetchesOf (calls w)"
  show "status p = ''paid''"
  proof (cases a)
    case (OpenInBrowser u t)
    with a show ?thesis by (auto simp: onAction_def fetchesOf_append)
  next
    case (RefundPayment q)
    with a show ?thesis by (auto simp: rowActions_def split: sum.splits if_splits)
  next
    case (CopyToClipboard t c)
    with a show ?thesis by (auto simp: onAction_def fetchesOf_append)
  qed
qed

theorem refund_offered_iff_paid_witness:
  "rowActions utcHost payMorning =
     Inr [OpenInBrowser ''https://my.mollie.com/tr_1'' ''Open in Mollie Dashboard'',
          RefundPayment payMorning,
          CopyToClipboard ''Copy Payment Id to Clipboard'' ''tr_1'',
          CopyToClipboard ''Copy Amount to Clipboard'' ''EUR 10,00'']
   \<and> RefundPayment payMorning \<in> set
        [OpenInBrowser ''https://my.mollie.com/tr_1'' ''Open in Mollie Dashboard'',
          RefundPayment payMorning,
          CopyToClipboard ''Copy Payment Id to Clipboard'' ''tr_1'',
          CopyToClipboard ''Copy Amount to Clipboard'' ''EUR 10,00'']
   \<and> status payMorning = ''paid''
   \<and> rowActions utcHost payOpen =
     Inr [OpenInBrowser ''https://my.mollie.com/tr_4'' ''Open in Mollie Dashboard'',
          CopyToClipboard ''Copy Payment Id to Clipboard'' ''tr_4'',
          CopyToClipboard ''Copy Amount to Clipboard'' ''EUR 7,25'']
   \<and> status payOpen \<noteq> ''paid''"
proof -
  have m: "rowActions utcHost payMorning =
     Inr [OpenInBrowser ''https://my.mollie.com/tr_1'' ''Open in Mollie Dashboard'',
          RefundPayment payMorning,
          CopyToClipboard ''Copy Payment Id to Clipboard'' ''tr_1'',
          CopyToClipboard ''Copy Amount to Clipboard'' ''EUR 10,00'']"
    by (simp add: rowActions_def formatCurrency_def wellFormedCurrencyCode_def asciiLetter_def
        utcHost_def payMorning_def twoDigits_def decimal.simps)
  have o: "rowActions utcHost payOpen =
     Inr [OpenInBrowser ''https://my.mollie.com/tr_4'' ''Open in Mollie Dashboard'',
          CopyToClipboard ''Copy Payment Id to Clipboard'' ''tr_4'',
          CopyToClipboard ''Copy Amount to Clipboard'' ''EUR 7,25'']"
    by (simp add: rowActions_def formatCurrency_def wellFormedCurrencyCode_def asciiLetter_def
        utcHost_def payOpen_def twoDigits_def decimal.simps)
  from refund_offered_iff_paid [of utcHost payMorning] m
  have "RefundPayment payMorning \<in> set
        [OpenInBrowser ''https://my.mollie.com/tr_1'' ''Open in Mollie Dashboard'',
          RefundPayment payMorning,
          CopyToClipboard ''Copy Payment Id to Clipboard'' ''tr_1'',
          CopyToClipboard ''Copy Amount to Clipboard'' ''EUR 10,00'']
        \<longleftrightarrow> payMorning = payMorning \<and> status payMorning = ''paid''"
    by blast
  moreover from refund_offered_iff_paid [of utcHost payOpen] o
  have "RefundPayment payOpen \<in> set
        [OpenInBrowser ''https://my.mollie.com/tr_4'' ''Open in Mollie Dashboard'',
          CopyToClipboard ''Copy Payment Id to Clipboard'' ''tr_4'',
          CopyToClipboard ''Copy Amount to Clipboard'' ''EUR 7,25'']
        \<longleftrightarrow> payOpen = payOpen \<and> status payOpen = ''paid''"
    by blast
  ultimately show ?thesis using m o by simp
qed

section \<open>Properties of the refund workflow\<close>

lemma refundConfirmed_cases:
  assumes "refundConfirmed h p"
  obtains s where
    "formatCurrency h (amount_value (amount p)) (amount_currency (amount p)) = Inr s"
    "confirmAlert h (refundAlert s p)"
  using assms by (auto simp: refundConfirmed_def split: sum.splits)

lemma refundDeclined_cases:
  assumes "refundDeclined h p"
  obtains s where
    "formatCurrency h (amount_value (amount p)) (amount_currency (amount p)) = Inr s"
    "\<not> confirmAlert h (refundAlert s p)"
  using assms by (auto simp: refundDeclined_def split: sum.splits)

lemma handleRefund_declined:
  assumes "formatCurrency h (amount_value (amount p)) (amount_currency (amount p)) = Inr s"
    and "\<not> confirmAlert h (refundAlert s p)"
  shows "handleRefund h tok p w = Inr (w\<lparr>calls := calls w @ [CallConfirmAlert (refundAlert s p)]\<rparr>)"
  using assms
  by (simp add: handleRefund_def call_confirmAlert_def)

lemma handleRefund_thrown:
  assumes "formatCurrency h (amount_value (amount p)) (amount_currency (amount p)) = Inl e"
  shows "handleRefund h tok p w = Inl e"
  using assms by (simp add: handleRefund_def)

lemma handleRefund_rejected:
  assumes "formatCurrency h (amount_value (amount p)) (amount_currency (amount p)) = Inr s"
    and "confirmAlert h (refundAlert s p)"
    and "fetch h (refundRequest tok p) = FetchRejected e"
  shows "handleRefund h tok p w =
     Inr (w\<lparr>shownToast := Some \<lparr>toast_style = Failure, toast_title = ''Refund Failed'',
                                toast_message = Some (caughtMessage e)\<rparr>,
            calls := calls w @ [CallConfirmAlert (refundAlert s p),
               CallShowToast \<lparr>toast_style = Animated, toast_title = ''Processing refund...'',
                                toast_message = None\<rparr>,
               CallFetch (refundRequest tok p)]\<rparr>)"
  using assms
  by (simp add: handleRefund_def call_confirmAlert_def call_showToast_def
      handleRefund_try_def call_fetch_def handleRefund_catch_def update_toast_def)

lemma handleRefund_not_ok:
  assumes "formatCurrency h (amount_value (amount p)) (amount_currency (amount p)) = Inr s"
    and "confirmAlert h (refundAlert s p)"
    and "fetch h (refundRequest tok p) = FetchResolved r" and "\<not> response_ok r"
  shows "handleRefund h tok p w =
     Inr (w\<lparr>shownToast := Some \<lparr>toast_style = Failure, toast_title = ''Refund Failed'',
               toast_message = Some (caughtMessage
                 (case response_json r of
                    Inl e \<Rightarrow> e
                  | Inr errorData \<Rightarrow>
                      (case refundErrorMessage h errorData (response_status r) of
                         Inl e \<Rightarrow> e | Inr msg \<Rightarrow> ErrorObject msg)))\<rparr>,
            calls := calls w @ [CallConfirmAlert (refundAlert s p),
               CallShowToast \<lparr>toast_style = Animated, toast_title = ''Processing refund...'',
                                toast_message = None\<rparr>,
               CallFetch (refundRequest tok p)]\<rparr>)"
  using assms
  by (simp add: handleRefund_def call_confirmAlert_def call_showToast_def
      handleRefund_try_def call_fetch_def handleRefund_catch_def update_toast_def
      split: sum.splits)

lemma handleRefund_ok:
  assumes "formatCurrency h (amount_value (amount p)) (amount_currency (amount p)) = Inr s"
    and "confirmAlert h (refundAlert s p)"
    and "fetch h (refundRequest tok p) = FetchResolved r" and "response_ok r"
  shows "handleRefund h tok p w =
     Inr (w\<lparr>shownToast := Some \<lparr>toast_style = Success, toast_title = ''Refund Successful'',
                                toast_message = Some (''Refunded '' @ s)\<rparr>,
            calls := calls w @ [CallConfirmAlert (refundAlert s p),
               CallShowToast \<lparr>toast_style = Animated, toast_title = ''Processing refund...'',
                                toast_message = None\<rparr>,
               CallFetch (refundRequest tok p), CallRevalidate]\<rparr>)"
  using assms
  by (simp add: handleRefund_def call_confirmAlert_def call_showToast_def
      handleRefund_try_def call_fetch_def update_toast_def call_revalidate_def)

lemma refundErrorMessage_null:
  "refundErrorMessage h JNull c = Inl (ErrorObject (nullReadMessage h ''detail''))"
  by (simp add: refundErrorMessage_def refundErrorOperand_def)

lemma refundErrorOperand_detail:
  assumes "getProp h j ''detail'' = Inr (Some v)" and "truthy h (Some v)"
  shows "refundErrorOperand h j c = Inr (DetailOperand v)"
  using assms by (simp add: refundErrorOperand_def)

lemma refundErrorOperand_title:
  assumes "getProp h j ''detail'' = Inr d" and "\<not> truthy h d"
    and "getProp h j ''title'' = Inr (Some v)" and "truthy h (Some v)"
  shows "refundErrorOperand h j c = Inr (TitleOperand v)"
  using assms by (simp add: refundErrorOperand_def)

lemma refundErrorOperand_status:
  assumes "getProp h j ''detail'' = Inr d" and "\<not> truthy h d"
    and "getProp h j ''title'' = Inr t" and "\<not> truthy h t"
  shows "refundErrorOperand h j c = Inr (StatusOperand (''HTTP error! Status: '' @ decimal c))"
  using assms by (simp add: refundErrorOperand_def)

lemma refundErrorMessage_detail:
  assumes "getProp h j ''detail'' = Inr (Some v)" and "truthy h (Some v)"
  shows "refundErrorMessage h j c = toStringJS h v"
  using assms by (simp add: refundErrorMessage_def refundErrorOperand_detail operandText_def)

lemma refundErrorMessage_title:
  assumes "getProp h j ''detail'' = Inr d" and "\<not> truthy h d"
    and "getProp h j ''title'' = Inr (Some v)" and "truthy h (Some v)"
  shows "refundErrorMessage h j c = toStringJS h v"
  using assms by (simp add: refundErrorMessage_def refundErrorOperand_title operandText_def)

lemma refundErrorMessage_generic:
  assumes "getProp h j ''detail'' = Inr d" and "\<not> truthy h d"
    and "getProp h j ''title'' = Inr t" and "\<not> truthy h t"
  shows "refundErrorMessage h j c = Inr (''HTTP error! Status: '' @ decimal c)"
  using assms by (simp add: refundErrorMessage_def refundErrorOperand_status operandText_def)

lemma truthy_Some: "truthy h d \<Longrightarrow> \<exists>v. d = Some v"
  by (cases d) simp_all

lemma getProp_defined: "j \<noteq> JNull \<Longrightarrow> \<exists>d. getProp h j k = Inr d"
  by (cases j) simp_all

lemma response_json_cases:
  "(\<exists>m. response_json r = Inl (ErrorObject m))
   \<or> response_json r = Inl OtherValue
   \<or> response_json r = Inr JNull
   \<or> (\<exists>j v. response_json r = Inr j \<and> getProp h j ''detail'' = Inr (Some v) \<and> truthy h (Some v))
   \<or> (\<exists>j d v. response_json r = Inr j \<and> getProp h j ''detail'' = Inr d \<and> \<not> truthy h d
         \<and> getProp h j ''title'' = Inr (Some v) \<and> truthy h (Some v))
   \<or> (\<exists>j d t. response_json r = Inr j \<and> getProp h j ''detail'' = Inr d \<and> \<not> truthy h d
         \<and> getProp h j ''title'' = Inr t \<and> \<not> truthy h t)"
proof (cases "response_json r")
  case (Inl e)
  then show ?thesis by (cases e) simp_all
next
  case (Inr j)
  show ?thesis
  proof (cases "j = JNull")
    case True
    with Inr show ?thesis by simp
  next
    case False
    then obtain d where d: "getProp h j ''detail'' = Inr d"
      using getProp_defined by blast
    from False obtain t where t: "getProp h j ''title'' = Inr t"
      using getProp_defined by blast
    show ?thesis
    proof (cases "truthy h d")
      case True
      then obtain v where "d = Some v" using truthy_Some by blast
      with True d Inr show ?thesis by auto
    next
      case nd: False
      show ?thesis
      proof (cases "truthy h t")
        case True
        then obtain v where "t = Some v" using truthy_Some by blast
        with True nd d t Inr show ?thesis by auto
      next
        case False
        with nd d t Inr show ?thesis by auto
      qed
    qed
  qed
qed

lemma confirmed_utcHost:
  "formatCurrency h (amount_value (amount payMorning)) (amount_currency (amount payMorning))
     = Inr (numberFormat h (parseFloat h ''10.00'') ''EUR'')"
  by (simp add: formatCurrency_def wellFormed_EUR payMorning_def)

text \<open>
  C3. When a refund on a payment is confirmed, the workflow returns having added exactly one
  request to the requests sent so far: a POST to the payment's \<open>refunds\<close> address whose
  body is \<open>{amount: {currency, value}}\<close> with the currency and the value of the payment's
  amount, as the payment record holds them.
\<close>

theorem confirmed_refund_single_request:
  assumes "refundConfirmed h p"
  shows "\<exists>w'. handleRefund h tok p w = Inr w'
       \<and> fetchesOf (calls w') = fetchesOf (calls w) @ [refundRequest tok p]
       \<and> request_body (refundRequest tok p :: 'n request) =
           JObject [(''amount'',
             JObject [(''currency'', JString (amount_currency (amount p))),
                      (''value'', JString (amount_value (amount p)))])]
       \<and> request_method (refundRequest tok p :: 'n request) = ''POST''
       \<and> request_url (refundRequest tok p :: 'n request) =
           ''https://api.mollie.com/v2/payments/'' @ payment_id p @ ''/refunds''"
proof -
  from assms obtain s where
    s: "formatCurrency h (amount_value (amount p)) (amount_currency (amount p)) = Inr s"
    and c: "confirmAlert h (refundAlert s p)"
    by (rule refundConfirmed_cases)
  have req: "request_body (refundRequest tok p :: 'n request) =
           JObject [(''amount'',
             JObject [(''currency'', JString (amount_currency (amount p))),
                      (''value'', JString (amount_value (amount p)))])]
       \<and> request_method (refundRequest tok p :: 'n request) = ''POST''
       \<and> request_url (refundRequest tok p :: 'n request) =
           ''https://api.mollie.com/v2/payments/'' @ payment_id p @ ''/refunds''"
    by (simp add: refundRequest_def)
  show ?thesis
  proof (cases "fetch h (refundRequest tok p)")
    case (FetchRejected e)
    from handleRefund_rejected [OF s c this] req show ?thesis
      by (simp add: fetchesOf_append)
  next
    case (FetchResolved r)
    show ?thesis
    proof (cases "response_ok r")
      case True
      from handleRefund_ok [OF s c FetchResolved True] req show ?thesis
        by (simp add: fetchesOf_append)
    next
      case False
      from handleRefund_not_ok [OF s c FetchResolved False] req show ?thesis
        by (simp add: fetchesOf_append)
    qed
  qed
qed

theorem confirmed_refund_single_request_witness:
  "refundConfirmed utcHost payMorning
   \<and> (\<exists>w'. handleRefund utcHost ''token'' payMorning emptyWorld = Inr w'
          \<and> fetchesOf (calls w') = [refundRequest ''token'' payMorning])
   \<and> request_body (refundRequest ''token'' payMorning :: int request) =
       JObject [(''amount'',
         JObject [(''currency'', JString ''EUR''), (''value'', JString ''10.00'')])]
   \<and> request_url (refundRequest ''token'' payMorning :: int request) =
       ''https://api.mollie.com/v2/payments/tr_1/refunds''"
proof -
  have c: "refundConfirmed utcHost payMorning"
    by (simp add: refundConfirmed_def confirmed_utcHost) (simp add: utcHost_def)
  from confirmed_refund_single_request [OF c, of "''token''" emptyWorld]
  obtain w' where run: "handleRefund utcHost ''token'' payMorning emptyWorld = Inr w'"
    and fs: "fetchesOf (calls w')
               = fetchesOf (calls emptyWorld) @ [refundRequest ''token'' payMorning]"
    by (elim exE conjE) (rule that)
  have e: "fetchesOf (calls emptyWorld) = []"
    by (simp add: emptyWorld_def)
  have b: "request_body (refundRequest ''token'' payMorning :: int request) =
       JObject [(''amount'',
         JObject [(''currency'', JString ''EUR''), (''value'', JString ''10.00'')])]"
    by (simp add: refundRequest_def payMorning_def)
  have u: "request_url (refundRequest ''token'' payMorning :: int request) =
       ''https://api.mollie.com/v2/payments/tr_1/refunds''"
    by (simp add: refundRequest_def payMorning_def)
  from run fs e
  have "\<exists>w'. handleRefund utcHost ''token'' payMorning emptyWorld = Inr w'
          \<and> fetchesOf (calls w') = [refundRequest ''token'' payMorning]"
    by simp
  with c b u show ?thesis by simp
qed

text \<open>
  C4. When the user declines the dialog, the workflow returns with the dialog as its only
  call: no request is added, no re-fetch is triggered, no toast is shown and the fetched
  collection is untouched. And whenever the workflow has added a request, the refund had
  been confirmed: no POST is sent without the user's affirmation.
\<close>

theorem declined_refund_no_request:
  "(refundDeclined h p \<longrightarrow>
      (\<exists>s. formatCurrency h (amount_value (amount p)) (amount_currency (amount p)) = Inr s
         \<and> handleRefund h tok p w = Inr (w\<lparr>calls := calls w @ [CallConfirmAlert (refundAlert s p)]\<rparr>))
      \<and> (\<exists>w'. handleRefund h tok p w = Inr w'
            \<and> fetchesOf (calls w') = fetchesOf (calls w)
            \<and> revalidationsOf (calls w') = revalidationsOf (calls w)
            \<and> shownToast w' = shownToast w \<and> fetched w' = fetched w))
   \<and> (\<forall>w'. handleRefund h tok p w = Inr w' \<and> fetchesOf (calls w') \<noteq> fetchesOf (calls w)
          \<longrightarrow> refundConfirmed h p)"
proof (intro conjI impI allI)
  assume d: "refundDeclined h p"
  then obtain s where
    s: "formatCurrency h (amount_value (amount p)) (amount_currency (amount p)) = Inr s"
    and c: "\<not> confirmAlert h (refundAlert s p)"
    by (rule refundDeclined_cases)
  from handleRefund_declined [OF s c]
  show "\<exists>s. formatCurrency h (amount_value (amount p)) (amount_currency (amount p)) = Inr s
         \<and> handleRefund h tok p w = Inr (w\<lparr>calls := calls w @ [CallConfirmAlert (refundAlert s p)]\<rparr>)"
    using s by blast
  from handleRefund_declined [OF s c]
  show "\<exists>w'. handleRefund h tok p w = Inr w'
            \<and> fetchesOf (calls w') = fetchesOf (calls w)
            \<and> revalidationsOf (calls w') = revalidationsOf (calls w)
            \<and> shownToast w' = shownToast w \<and> fetched w' = fetched w"
    by (simp add: fetchesOf_append revalidationsOf_append)
next
  fix w'
  assume a: "handleRefund h tok p w = Inr w' \<and> fetchesOf (calls w') \<noteq> fetchesOf (calls w)"
  show "refundConfirmed h p"
  proof (cases "formatCurrency h (amount_value (amount p)) (amount_currency (amount p))")
    case (Inl e)
    with a show ?thesis by (simp add: handleRefund_thrown)
  next
    case (Inr s)
    show ?thesis
    proof (cases "confirmAlert h (refundAlert s p)")
      case True
      with Inr show ?thesis by (simp add: refundConfirmed_def)
    next
      case False
      from handleRefund_declined [OF Inr False] a show ?thesis
        by (auto simp: fetchesOf_append)
    qed
  qed
qed

theorem declined_refund_no_request_witness:
  "refundDeclined decliningHost payLater
   \<and> handleRefund decliningHost ''token'' payLater emptyWorld =
       Inr (emptyWorld\<lparr>calls :=
              [CallConfirmAlert
                 \<lparr>alert_title = ''Refund Payment'',
                  alert_message =
                    ''Are you sure you want to refund EUR 5,50 for '' @ [CHR 0x22]
                    @ ''No description'' @ [CHR 0x22] @ ''?'',
                  primaryAction_title = ''Refund'',
                  primaryAction_style = Destructive\<rparr>]\<rparr>)
   \<and> fetchesOf (calls emptyWorld) = []"
proof -
  have f: "formatCurrency decliningHost (amount_value (amount payLater))
             (amount_currency (amount payLater)) = Inr ''EUR 5,50''"
    by (simp add: formatCurrency_def wellFormed_EUR payLater_def decliningHost_def utcHost_def
        twoDigits_def decimal.simps)
  have d: "refundDeclined decliningHost payLater"
    by (simp add: refundDeclined_def f) (simp add: decliningHost_def)
  from declined_refund_no_request [of decliningHost payLater "''token''" emptyWorld] d f
  have "handleRefund decliningHost ''token'' payLater emptyWorld =
          Inr (emptyWorld\<lparr>calls := calls emptyWorld
                 @ [CallConfirmAlert (refundAlert ''EUR 5,50'' payLater)]\<rparr>)"
    by simp
  with d show ?thesis
    by (simp add: emptyWorld_def refundAlert_def payLater_def)
qed

text \<open>
  C5. When a confirmed refund is answered with a status from 200 to 299, the workflow
  returns after exactly four calls, in order: the dialog, the "Processing refund..." toast,
  the request and one re-fetch trigger. The count of re-fetch triggers grows by exactly
  one, the fetched collection is the one held before, and the toast ends as the success
  notification with the refunded amount.
\<close>

theorem successful_refund_single_refetch:
  assumes "refundConfirmed h p"
    and "fetch h (refundRequest tok p) = FetchResolved r"
    and "response_ok r"
  shows "\<exists>w' s. handleRefund h tok p w = Inr w'
       \<and> formatCurrency h (amount_value (amount p)) (amount_currency (amount p)) = Inr s
       \<and> calls w' = calls w @
           [CallConfirmAlert (refundAlert s p),
            CallShowToast \<lparr>toast_style = Animated, toast_title = ''Processing refund...'',
                           toast_message = None\<rparr>,
            CallFetch (refundRequest tok p),
            CallRevalidate]
       \<and> revalidationsOf (calls w') = revalidationsOf (calls w) + 1
       \<and> fetched w' = fetched w
       \<and> shownToast w' = Some \<lparr>toast_style = Success, toast_title = ''Refund Successful'',
                                toast_message = Some (''Refunded '' @ s)\<rparr>"
proof -
  from assms(1) obtain s where
    s: "formatCurrency h (amount_value (amount p)) (amount_currency (amount p)) = Inr s"
    and c: "confirmAlert h (refundAlert s p)"
    by (rule refundConfirmed_cases)
  from handleRefund_ok [OF s c assms(2,3)] s show ?thesis
    by (simp add: revalidationsOf_append)
qed

theorem successful_refund_single_refetch_witness:
  "refundConfirmed utcHost payMorning
   \<and> fetch utcHost (refundRequest ''token'' payMorning) =
       FetchResolved \<lparr>response_status = 201,
                      response_json = Inr (JObject [(''resource'', JString ''refund'')])\<rparr>
   \<and> (\<exists>w'. handleRefund utcHost ''token'' payMorning emptyWorld = Inr w'
          \<and> revalidationsOf (calls w') = 1
          \<and> fetched w' = Some [payMorning, payOpen, payLater, payYesterday]
          \<and> shownToast w' = Some \<lparr>toast_style = Success, toast_title = ''Refund Successful'',
                                   toast_message = Some ''Refunded EUR 10,00''\<rparr>)"
proof -
  have c: "refundConfirmed utcHost payMorning"
    by (simp add: refundConfirmed_def confirmed_utcHost) (simp add: utcHost_def)
  have f: "fetch utcHost (refundRequest ''token'' payMorning) =
       FetchResolved \<lparr>response_status = 201,
                      response_json = Inr (JObject [(''resource'', JString ''refund'')])\<rparr>"
    by (simp add: utcHost_def)
  have ok: "response_ok \<lparr>response_status = 201,
                      response_json = Inr (JObject [(''resource'', JString (''refund''))])
                        :: thrown + int json\<rparr>"
    by (simp add: response_ok_def)
  have s: "numberFormat utcHost (parseFloat utcHost ''10.00'') ''EUR'' = ''EUR 10,00''"
    by (simp add: utcHost_def twoDigits_def decimal.simps)
  from successful_refund_single_refetch [OF c f ok, of emptyWorld]
  obtain w' t where
    run: "handleRefund utcHost ''token'' payMorning emptyWorld = Inr w'"
    and t: "formatCurrency utcHost (amount_value (amount payMorning))
              (amount_currency (amount payMorning)) = Inr t"
    and rv: "revalidationsOf (calls w') = revalidationsOf (calls emptyWorld) + 1"
    and fe: "fetched w' = fetched emptyWorld"
    and to: "shownToast w' = Some \<lparr>toast_style = Success, toast_title = ''Refund Successful'',
                                toast_message = Some (''Refunded '' @ t)\<rparr>"
    by (elim exE conjE) (rule that)
  from t have "t = ''EUR 10,00''"
    by (simp add: confirmed_utcHost s)
  with run rv fe to
  have "\<exists>w'. handleRefund utcHost ''token'' payMorning emptyWorld = Inr w'
          \<and> revalidationsOf (calls w') = 1
          \<and> fetched w' = Some [payMorning, payOpen, payLater, payYesterday]
          \<and> shownToast w' = Some \<lparr>toast_style = Success, toast_title = ''Refund Successful'',
                                   toast_message = Some ''Refunded EUR 10,00''\<rparr>"
    by (simp add: emptyWorld_def)
  with c f show ?thesis by simp
qed

lemma toStringJS_throws:
  "toStringJS h v = Inl e \<Longrightarrow> e = ErrorObject (primitiveErrorMessage h)"
  "elementStrings h xs = Inl e \<Longrightarrow> e = ErrorObject (primitiveErrorMessage h)"
  by (induction h v and h xs arbitrary: e and e rule: toStringJS_elementStrings.induct)
     (auto split: sum.splits if_splits)

lemma toStringJS_cases:
  "(\<exists>s. toStringJS h v = Inr s) \<or> toStringJS h v = Inl (ErrorObject (primitiveErrorMessage h))"
  by (cases "toStringJS h v") (auto dest: toStringJS_throws)

lemma refundErrorOperand_StatusD:
  assumes "refundErrorOperand h j c = Inr (StatusOperand s)"
  shows "s = ''HTTP error! Status: '' @ decimal c
       \<and> (\<exists>d t. getProp h j ''detail'' = Inr d \<and> \<not> truthy h d
                \<and> getProp h j ''title'' = Inr t \<and> \<not> truthy h t)"
  using assms
  by (auto simp: refundErrorOperand_def split: sum.splits option.splits if_splits)

text \<open>The message a failed response ends on the toast with.\<close>

lemma not_ok_message_cases:
  fixes h :: "'n host" and r :: "'n response"
  defines "msg \<equiv> caughtMessage
                 (case response_json r of
                    Inl e \<Rightarrow> e
                  | Inr errorData \<Rightarrow>
                      (case refundErrorMessage h errorData (response_status r) of
                         Inl e \<Rightarrow> e | Inr msg \<Rightarrow> ErrorObject msg))"
  shows "\<And>m. response_json r = Inl (ErrorObject m) \<Longrightarrow> msg = m"
    and "response_json r = Inl OtherValue \<Longrightarrow> msg = ''An unknown error occurred.''"
    and "response_json r = Inr JNull \<Longrightarrow> msg = nullReadMessage h ''detail''"
    and "\<And>j v s. response_json r = Inr j \<Longrightarrow> getProp h j ''detail'' = Inr (Some v)
           \<Longrightarrow> truthy h (Some v) \<Longrightarrow> toStringJS h v = Inr s \<Longrightarrow> msg = s"
    and "\<And>j v m. response_json r = Inr j \<Longrightarrow> getProp h j ''detail'' = Inr (Some v)
           \<Longrightarrow> truthy h (Some v) \<Longrightarrow> toStringJS h v = Inl (ErrorObject m) \<Longrightarrow> msg = m"
    and "\<And>j d v s. response_json r = Inr j \<Longrightarrow> getProp h j ''detail'' = Inr d
           \<Longrightarrow> \<not> truthy h d \<Longrightarrow> getProp h j ''title'' = Inr (Some v)
           \<Longrightarrow> truthy h (Some v) \<Longrightarrow> toStringJS h v = Inr s \<Longrightarrow> msg = s"
    and "\<And>j d v m. response_json r = Inr j \<Longrightarrow> getProp h j ''detail'' = Inr d
           \<Longrightarrow> \<not> truthy h d \<Longrightarrow> getProp h j ''title'' = Inr (Some v)
           \<Longrightarrow> truthy h (Some v) \<Longrightarrow> toStringJS h v = Inl (ErrorObject m) \<Longrightarrow> msg = m"
    and "\<And>j d t. response_json r = Inr j \<Longrightarrow> getProp h j ''detail'' = Inr d
           \<Longrightarrow> \<not> truthy h d \<Longrightarrow> getProp h j ''title'' = Inr t \<Longrightarrow> \<not> truthy h t
           \<Longrightarrow> msg = ''HTTP error! Status: '' @ decimal (response_status r)"
    and "\<And>j s. response_json r = Inr j
           \<Longrightarrow> refundErrorOperand h j (response_status r) = Inr (StatusOperand s)
           \<Longrightarrow> msg = s"
  unfolding msg_def
  by (simp_all add: caughtMessage_def refundErrorMessage_null refundErrorMessage_detail
      refundErrorMessage_title refundErrorMessage_generic)
     (simp add: refundErrorMessage_def operandText_def)

text \<open>
  C6, as amended. When a confirmed refund's request is rejected or answered with a status
  outside 200 to 299, the workflow returns after the dialog, the toast and the request,
  with no re-fetch trigger and the fetched collection as before, and the toast ends as the
  failure notification "Refund Failed" with a message. When the response's body parses as
  JSON and is not null, the message is the \<open>detail\<close> field converted to a string if
  \<open>detail\<close> is truthy, else the \<open>title\<close> field converted to a string if \<open>title\<close> is
  truthy, else "HTTP error! Status: " followed by the status code; a field that is a string
  is shown as it is. When the request is rejected with an error, the body does not parse,
  or the conversion of the field throws, the message is that error's message.
\<close>

theorem failed_refund_no_refetch:
  assumes "refundConfirmed h p"
    and "case fetch h (refundRequest tok p) of
           FetchRejected e \<Rightarrow> True
         | FetchResolved r \<Rightarrow> \<not> response_ok r"
  shows "\<exists>w' s msg. handleRefund h tok p w = Inr w'
       \<and> formatCurrency h (amount_value (amount p)) (amount_currency (amount p)) = Inr s
       \<and> calls w' = calls w @
           [CallConfirmAlert (refundAlert s p),
            CallShowToast \<lparr>toast_style = Animated, toast_title = ''Processing refund...'',
                           toast_message = None\<rparr>,
            CallFetch (refundRequest tok p)]
       \<and> revalidationsOf (calls w') = revalidationsOf (calls w)
       \<and> fetched w' = fetched w
       \<and> shownToast w' = Some \<lparr>toast_style = Failure, toast_title = ''Refund Failed'',
                                toast_message = Some msg\<rparr>
       \<and> (\<forall>m. fetch h (refundRequest tok p) = FetchRejected (ErrorObject m) \<longrightarrow> msg = m)
       \<and> (\<forall>r m. fetch h (refundRequest tok p) = FetchResolved r
                 \<and> response_json r = Inl (ErrorObject m) \<longrightarrow> msg = m)
       \<and> (\<forall>r j v. fetch h (refundRequest tok p) = FetchResolved r \<and> response_json r = Inr j
                 \<and> getProp h j ''detail'' = Inr (Some v) \<and> truthy h (Some v)
               \<longrightarrow> (\<forall>t. toStringJS h v = Inr t \<longrightarrow> msg = t)
                 \<and> (\<forall>m. toStringJS h v = Inl (ErrorObject m) \<longrightarrow> msg = m))
       \<and> (\<forall>r j d v. fetch h (refundRequest tok p) = FetchResolved r \<and> response_json r = Inr j
                 \<and> getProp h j ''detail'' = Inr d \<and> \<not> truthy h d
                 \<and> getProp h j ''title'' = Inr (Some v) \<and> truthy h (Some v)
               \<longrightarrow> (\<forall>t. toStringJS h v = Inr t \<longrightarrow> msg = t)
                 \<and> (\<forall>m. toStringJS h v = Inl (ErrorObject m) \<longrightarrow> msg = m))
       \<and> (\<forall>r j d t. fetch h (refundRequest tok p) = FetchResolved r \<and> response_json r = Inr j
                 \<and> getProp h j ''detail'' = Inr d \<and> \<not> truthy h d
                 \<and> getProp h j ''title'' = Inr t \<and> \<not> truthy h t
               \<longrightarrow> msg = ''HTTP error! Status: '' @ decimal (response_status r))"
proof -
  from assms(1) obtain s where
    s: "formatCurrency h (amount_value (amount p)) (amount_currency (amount p)) = Inr s"
    and c: "confirmAlert h (refundAlert s p)"
    by (rule refundConfirmed_cases)
  show ?thesis
  proof (cases "fetch h (refundRequest tok p)")
    case (FetchRejected e)
    from handleRefund_rejected [OF s c this] s FetchRejected show ?thesis
      by (simp add: revalidationsOf_append caughtMessage_def)
  next
    case (FetchResolved r)
    with assms(2) have nok: "\<not> response_ok r" by simp
    define msg where "msg = caughtMessage
                 (case response_json r of
                    Inl e \<Rightarrow> e
                  | Inr errorData \<Rightarrow>
                      (case refundErrorMessage h errorData (response_status r) of
                         Inl e \<Rightarrow> e | Inr msg \<Rightarrow> ErrorObject msg))"
    note cs = not_ok_message_cases [where h = h and r = r, folded msg_def]
    let ?W = "w\<lparr>shownToast := Some \<lparr>toast_style = Failure, toast_title = ''Refund Failed'',
                                  toast_message = Some msg\<rparr>,
                calls := calls w @ [CallConfirmAlert (refundAlert s p),
                  CallShowToast \<lparr>toast_style = Animated, toast_title = ''Processing refund...'',
                                  toast_message = None\<rparr>,
                  CallFetch (refundRequest tok p)]\<rparr>"
    have run: "handleRefund h tok p w = Inr ?W"
      unfolding msg_def by (rule handleRefund_not_ok [OF s c FetchResolved nok])
    have log: "calls ?W = calls w @
           [CallConfirmAlert (refundAlert s p),
            CallShowToast \<lparr>toast_style = Animated, toast_title = ''Processing refund...'',
                           toast_message = None\<rparr>,
            CallFetch (refundRequest tok p)]
       \<and> revalidationsOf (calls ?W) = revalidationsOf (calls w)
       \<and> fetched ?W = fetched w
       \<and> shownToast ?W = Some \<lparr>toast_style = Failure, toast_title = ''Refund Failed'',
                                toast_message = Some msg\<rparr>"
      by (simp add: revalidationsOf_append)
    have rej: "\<forall>m. fetch h (refundRequest tok p) = FetchRejected (ErrorObject m) \<longrightarrow> msg = m"
      by (simp add: FetchResolved)
    have parse: "\<forall>r' m. fetch h (refundRequest tok p) = FetchResolved r'
                 \<and> response_json r' = Inl (ErrorObject m) \<longrightarrow> msg = m"
      using cs(1) by (simp add: FetchResolved)
    have detail: "\<forall>r' j v. fetch h (refundRequest tok p) = FetchResolved r'
                 \<and> response_json r' = Inr j
                 \<and> getProp h j ''detail'' = Inr (Some v) \<and> truthy h (Some v)
               \<longrightarrow> (\<forall>t. toStringJS h v = Inr t \<longrightarrow> msg = t)
                 \<and> (\<forall>m. toStringJS h v = Inl (ErrorObject m) \<longrightarrow> msg = m)"
      using cs(4,5) by (simp add: FetchResolved)
    have title: "\<forall>r' j d v. fetch h (refundRequest tok p) = FetchResolved r'
                 \<and> response_json r' = Inr j
                 \<and> getProp h j ''detail'' = Inr d \<and> \<not> truthy h d
                 \<and> getProp h j ''title'' = Inr (Some v) \<and> truthy h (Some v)
               \<longrightarrow> (\<forall>t. toStringJS h v = Inr t \<longrightarrow> msg = t)
                 \<and> (\<forall>m. toStringJS h v = Inl (ErrorObject m) \<longrightarrow> msg = m)"
      using cs(6,7) by (simp add: FetchResolved)
    have generic: "\<forall>r' j d t. fetch h (refundRequest tok p) = FetchResolved r'
                 \<and> response_json r' = Inr j
                 \<and> getProp h j ''detail'' = Inr d \<and> \<not> truthy h d
                 \<and> getProp h j ''title'' = Inr t \<and> \<not> truthy h t
               \<longrightarrow> msg = ''HTTP error! Status: '' @ decimal (response_status r')"
      using cs(8) by (simp add: FetchResolved)
    from run s log rej parse detail title generic
    have "handleRefund h tok p w = Inr ?W
       \<and> formatCurrency h (amount_value (amount p)) (amount_currency (amount p)) = Inr s
       \<and> calls ?W = calls w @
           [CallConfirmAlert (refundAlert s p),
            CallShowToast \<lparr>toast_style = Animated, toast_title = ''Processing refund...'',
                           toast_message = None\<rparr>,
            CallFetch (refundRequest tok p)]
       \<and> revalidationsOf (calls ?W) = revalidationsOf (calls w)
       \<and> fetched ?W = fetched w
       \<and> shownToast ?W = Some \<lparr>toast_style = Failure, toast_title = ''Refund Failed'',
                                toast_message = Some msg\<rparr>
       \<and> (\<forall>m. fetch h (refundRequest tok p) = FetchRejected (ErrorObject m) \<longrightarrow> msg = m)
       \<and> (\<forall>r m. fetch h (refundRequest tok p) = FetchResolved r
                 \<and> response_json r = Inl (ErrorObject m) \<longrightarrow> msg = m)
       \<and> (\<forall>r j v. fetch h (refundRequest tok p) = FetchResolved r \<and> response_json r = Inr j
                 \<and> getProp h j ''detail'' = Inr (Some v) \<and> truthy h (Some v)
               \<longrightarrow> (\<forall>t. toStringJS h v = Inr t \<longrightarrow> msg = t)
                 \<and> (\<forall>m. toStringJS h v = Inl (ErrorObject m) \<longrightarrow> msg = m))
       \<and> (\<forall>r j d v. fetch h (refundRequest tok p) = FetchResolved r \<and> response_json r = Inr j
                 \<and> getProp h j ''detail'' = Inr d \<and> \<not> truthy h d
                 \<and> getProp h j ''title'' = Inr (Some v) \<and> truthy h (Some v)
               \<longrightarrow> (\<forall>t. toStringJS h v = Inr t \<longrightarrow> msg = t)
                 \<and> (\<forall>m. toStringJS h v = Inl (ErrorObject m) \<longrightarrow> msg = m))
       \<and> (\<forall>r j d t. fetch h (refundRequest tok p) = FetchResolved r \<and> response_json r = Inr j
                 \<and> getProp h j ''detail'' = Inr d \<and> \<not> truthy h d
                 \<and> getProp h j ''title'' = Inr t \<and> \<not> truthy h t
               \<longrightarrow> msg = ''HTTP error! Status: '' @ decimal (response_status r))"
      by (intro conjI) (elim conjE, assumption)+
    then show ?thesis
      by (intro exI)
  qed
qed

text \<open>
  A 422 whose body has the detail "insufficient balance" surfaces that text; a 400 whose
  detail is an object with a member \<open>toString\<close> surfaces the message of the TypeError of
  converting it, although \<open>title\<close> is a string.
\<close>

theorem failed_refund_no_refetch_witness:
  "refundConfirmed rejectingHost payMorning
   \<and> (\<exists>w'. handleRefund rejectingHost ''token'' payMorning emptyWorld = Inr w'
          \<and> revalidationsOf (calls w') = 0
          \<and> fetched w' = Some [payMorning, payOpen, payLater, payYesterday]
          \<and> shownToast w' = Some \<lparr>toast_style = Failure, toast_title = ''Refund Failed'',
                                   toast_message = Some ''insufficient balance''\<rparr>)
   \<and> refundConfirmed unconvertibleHost payMorning
   \<and> (\<exists>w'. handleRefund unconvertibleHost ''token'' payMorning emptyWorld = Inr w'
          \<and> revalidationsOf (calls w') = 0
          \<and> shownToast w' = Some \<lparr>toast_style = Failure, toast_title = ''Refund Failed'',
               toast_message = Some ''Cannot convert object to primitive value''\<rparr>)"
proof -
  let ?r = "\<lparr>response_status = 422,
         response_json = Inr (JObject [(''status'', JNumber 422),
                                       (''title'', JString ''Unprocessable Entity''),
                                       (''detail'', JString ''insufficient balance'')])\<rparr>
           :: int response"
  let ?u = "\<lparr>response_status = 400,
         response_json = Inr (JObject [(''detail'', JObject [(''toString'', JNumber 1)]),
                                       (''title'', JString ''Bad Request'')])\<rparr>
           :: int response"
  have c: "refundConfirmed rejectingHost payMorning"
    by (simp add: refundConfirmed_def confirmed_utcHost)
       (simp add: rejectingHost_def utcHost_def)
  have f: "fetch rejectingHost (refundRequest ''token'' payMorning) = FetchResolved ?r"
    by (simp add: rejectingHost_def)
  have nok: "case fetch rejectingHost (refundRequest ''token'' payMorning) of
               FetchRejected e \<Rightarrow> True
             | FetchResolved r \<Rightarrow> \<not> response_ok r"
    by (simp add: f response_ok_def)
  from failed_refund_no_refetch [OF c nok, of emptyWorld]
  obtain w' s msg where
    run: "handleRefund rejectingHost ''token'' payMorning emptyWorld = Inr w'"
    and rv: "revalidationsOf (calls w') = revalidationsOf (calls emptyWorld)"
    and fe: "fetched w' = fetched emptyWorld"
    and to: "shownToast w' = Some \<lparr>toast_style = Failure, toast_title = ''Refund Failed'',
                                toast_message = Some msg\<rparr>"
    and detail: "\<forall>r j v. fetch rejectingHost (refundRequest ''token'' payMorning)
                   = FetchResolved r \<and> response_json r = Inr j
                 \<and> getProp rejectingHost j ''detail'' = Inr (Some v)
                 \<and> truthy rejectingHost (Some v)
               \<longrightarrow> (\<forall>t. toStringJS rejectingHost v = Inr t \<longrightarrow> msg = t)
                 \<and> (\<forall>m. toStringJS rejectingHost v = Inl (ErrorObject m) \<longrightarrow> msg = m)"
    by (elim exE conjE) (rule that)
  have pre: "fetch rejectingHost (refundRequest ''token'' payMorning) = FetchResolved ?r
      \<and> response_json ?r = Inr (JObject [(''status'', JNumber 422),
                                       (''title'', JString ''Unprocessable Entity''),
                                       (''detail'', JString ''insufficient balance'')])
      \<and> getProp rejectingHost (JObject [(''status'', JNumber 422),
                                       (''title'', JString ''Unprocessable Entity''),
                                       (''detail'', JString ''insufficient balance'')]) ''detail''
          = Inr (Some (JString ''insufficient balance''))
      \<and> truthy rejectingHost (Some (JString ''insufficient balance''))"
    by (simp add: f)
  from detail [rule_format, OF pre]
  have "\<forall>t. toStringJS rejectingHost (JString ''insufficient balance'') = Inr t \<longrightarrow> msg = t"
    by (rule conjunct1)
  then have "msg = ''insufficient balance''"
    by simp
  with run rv fe to
  have first: "\<exists>w'. handleRefund rejectingHost ''token'' payMorning emptyWorld = Inr w'
          \<and> revalidationsOf (calls w') = 0
          \<and> fetched w' = Some [payMorning, payOpen, payLater, payYesterday]
          \<and> shownToast w' = Some \<lparr>toast_style = Failure, toast_title = ''Refund Failed'',
                                   toast_message = Some ''insufficient balance''\<rparr>"
    by (simp add: emptyWorld_def)
  have c2: "refundConfirmed unconvertibleHost payMorning"
    by (simp add: refundConfirmed_def confirmed_utcHost)
       (simp add: unconvertibleHost_def utcHost_def)
  have f2: "fetch unconvertibleHost (refundRequest ''token'' payMorning) = FetchResolved ?u"
    by (simp add: unconvertibleHost_def)
  have nok2: "case fetch unconvertibleHost (refundRequest ''token'' payMorning) of
               FetchRejected e \<Rightarrow> True
             | FetchResolved r \<Rightarrow> \<not> response_ok r"
    by (simp add: f2 response_ok_def)
  from failed_refund_no_refetch [OF c2 nok2, of emptyWorld]
  obtain w2 s2 msg2 where
    run2: "handleRefund unconvertibleHost ''token'' payMorning emptyWorld = Inr w2"
    and rv2: "revalidationsOf (calls w2) = revalidationsOf (calls emptyWorld)"
    and to2: "shownToast w2 = Some \<lparr>toast_style = Failure, toast_title = ''Refund Failed'',
                                toast_message = Some msg2\<rparr>"
    and detail2: "\<forall>r j v. fetch unconvertibleHost (refundRequest ''token'' payMorning)
                   = FetchResolved r \<and> response_json r = Inr j
                 \<and> getProp unconvertibleHost j ''detail'' = Inr (Some v)
                 \<and> truthy unconvertibleHost (Some v)
               \<longrightarrow> (\<forall>t. toStringJS unconvertibleHost v = Inr t \<longrightarrow> msg2 = t)
                 \<and> (\<forall>m. toStringJS unconvertibleHost v = Inl (ErrorObject m) \<longrightarrow> msg2 = m)"
    by (elim exE conjE) (rule that)
  have pre2: "fetch unconvertibleHost (refundRequest ''token'' payMorning) = FetchResolved ?u
      \<and> response_json ?u = Inr (JObject [(''detail'', JObject [(''toString'', JNumber 1)]),
                                       (''title'', JString ''Bad Request'')])
      \<and> getProp unconvertibleHost (JObject [(''detail'', JObject [(''toString'', JNumber 1)]),
                                       (''title'', JString ''Bad Request'')]) ''detail''
          = Inr (Some (JObject [(''toString'', JNumber 1)]))
      \<and> truthy unconvertibleHost (Some (JObject [(''toString'', JNumber 1)]))"
    by (simp add: f2)
  from detail2 [rule_format, OF pre2]
  have "\<forall>m. toStringJS unconvertibleHost (JObject [(''toString'', JNumber 1)])
              = Inl (ErrorObject m) \<longrightarrow> msg2 = m"
    by (rule conjunct2)
  then have "msg2 = ''Cannot convert object to primitive value''"
    by (simp add: unconvertibleHost_def utcHost_def)
  with run2 rv2 to2
  have "\<exists>w'. handleRefund unconvertibleHost ''token'' payMorning emptyWorld = Inr w'
          \<and> revalidationsOf (calls w') = 0
          \<and> shownToast w' = Some \<lparr>toast_style = Failure, toast_title = ''Refund Failed'',
               toast_message = Some ''Cannot convert object to primitive value''\<rparr>"
    by (simp add: emptyWorld_def)
  with first c c2 show ?thesis by simp
qed

text \<open>
  C6 as stated fails: a confirmed refund answered with 502 and a body that is not JSON has
  no detail and no title, and the failure notification carries the parse error's message,
  not the HTTP-status message.
\<close>

theorem failed_refund_message_counterexample:
  "refundConfirmed badGatewayHost payMorning
   \<and> fetch badGatewayHost (refundRequest ''token'' payMorning) =
       FetchResolved
         \<lparr>response_status = 502,
          response_json = Inl (ErrorObject ''Unexpected token < in JSON at position 0'')\<rparr>
   \<and> \<not> response_ok
         \<lparr>response_status = 502,
          response_json = (Inl (ErrorObject ''Unexpected token < in JSON at position 0'')
            :: thrown + int json)\<rparr>
   \<and> (case handleRefund badGatewayHost ''token'' payMorning emptyWorld of
         Inl e \<Rightarrow> None
       | Inr w' \<Rightarrow> shownToast w') =
       Some \<lparr>toast_style = Failure, toast_title = ''Refund Failed'',
             toast_message = Some ''Unexpected token < in JSON at position 0''\<rparr>
   \<and> ''Unexpected token < in JSON at position 0'' \<noteq> ''HTTP error! Status: 502''
   \<and> ''HTTP error! Status: '' @ decimal 502 = ''HTTP error! Status: 502''"
proof -
  let ?r = "\<lparr>response_status = 502,
          response_json = Inl (ErrorObject ''Unexpected token < in JSON at position 0'')\<rparr>
           :: int response"
  have s: "formatCurrency badGatewayHost (amount_value (amount payMorning))
             (amount_currency (amount payMorning))
           = Inr (numberFormat badGatewayHost (parseFloat badGatewayHost ''10.00'') ''EUR'')"
    by (rule confirmed_utcHost)
  have a: "confirmAlert badGatewayHost
             (refundAlert (numberFormat badGatewayHost (parseFloat badGatewayHost ''10.00'') ''EUR'')
                payMorning)"
    by (simp add: badGatewayHost_def utcHost_def)
  have c: "refundConfirmed badGatewayHost payMorning"
    by (simp add: refundConfirmed_def s a)
  have f: "fetch badGatewayHost (refundRequest ''token'' payMorning) = FetchResolved ?r"
    by (simp add: badGatewayHost_def)
  have nok: "\<not> response_ok ?r"
    by (simp add: response_ok_def)
  from handleRefund_not_ok [OF s a f nok, of emptyWorld] c f nok
  show ?thesis
    by (simp add: caughtMessage_def decimal.simps)
qed

text \<open>
  C10. For a confirmed refund answered with a status outside 200 to 299, the failure
  notification's message is decided by the body alone in every case but one. If the body
  does not parse, the message is the parse error's message (or "An unknown error occurred."
  for a thrown value that is not an error); if the body is \<open>null\<close>, it is the message of the
  error of reading \<open>detail\<close>; if \<open>detail\<close> is truthy, it is \<open>detail\<close> converted to a
  string, or the message of the error that conversion throws; if \<open>detail\<close> is not truthy
  and \<open>title\<close> is, the same holds of \<open>title\<close>. The message "HTTP error! Status: "
  followed by the status code is given when the body parses and neither \<open>detail\<close> nor
  \<open>title\<close> is truthy, and only then: whenever the argument of \<open>new Error\<close> is the
  status operand of the chain, the body has parsed and neither field is truthy. On the
  screen, the message reads "HTTP error! Status: " followed by the code only in that
  case, or when the text that the body or the thrown error supplies itself reads exactly
  so. These cases are all the cases.
\<close>

theorem not_ok_refund_message:
  assumes "refundConfirmed h p"
    and "fetch h (refundRequest tok p) = FetchResolved r"
    and "\<not> response_ok r"
  shows "(\<exists>w' msg. handleRefund h tok p w = Inr w'
       \<and> shownToast w' = Some \<lparr>toast_style = Failure, toast_title = ''Refund Failed'',
                                toast_message = Some msg\<rparr>
       \<and> (\<forall>m. response_json r = Inl (ErrorObject m) \<longrightarrow> msg = m)
       \<and> (response_json r = Inl OtherValue \<longrightarrow> msg = ''An unknown error occurred.'')
       \<and> (response_json r = Inr JNull \<longrightarrow> msg = nullReadMessage h ''detail'')
       \<and> (\<forall>j v. response_json r = Inr j
                 \<and> getProp h j ''detail'' = Inr (Some v) \<and> truthy h (Some v)
               \<longrightarrow> (\<forall>t. toStringJS h v = Inr t \<longrightarrow> msg = t)
                 \<and> (\<forall>m. toStringJS h v = Inl (ErrorObject m) \<longrightarrow> msg = m))
       \<and> (\<forall>j d v. response_json r = Inr j
                 \<and> getProp h j ''detail'' = Inr d \<and> \<not> truthy h d
                 \<and> getProp h j ''title'' = Inr (Some v) \<and> truthy h (Some v)
               \<longrightarrow> (\<forall>t. toStringJS h v = Inr t \<longrightarrow> msg = t)
                 \<and> (\<forall>m. toStringJS h v = Inl (ErrorObject m) \<longrightarrow> msg = m))
       \<and> (\<forall>j d t. response_json r = Inr j
                 \<and> getProp h j ''detail'' = Inr d \<and> \<not> truthy h d
                 \<and> getProp h j ''title'' = Inr t \<and> \<not> truthy h t
               \<longrightarrow> msg = ''HTTP error! Status: '' @ decimal (response_status r))
       \<and> (\<forall>j g. response_json r = Inr j
                 \<and> refundErrorOperand h j (response_status r) = Inr (StatusOperand g)
               \<longrightarrow> g = ''HTTP error! Status: '' @ decimal (response_status r) \<and> msg = g
                 \<and> (\<exists>d t. getProp h j ''detail'' = Inr d \<and> \<not> truthy h d
                       \<and> getProp h j ''title'' = Inr t \<and> \<not> truthy h t))
       \<and> (msg = ''HTTP error! Status: '' @ decimal (response_status r) \<longrightarrow>
             (\<exists>j d t. response_json r = Inr j
                 \<and> getProp h j ''detail'' = Inr d \<and> \<not> truthy h d
                 \<and> getProp h j ''title'' = Inr t \<and> \<not> truthy h t)
           \<or> response_json r = Inl (ErrorObject msg)
           \<or> (response_json r = Inr JNull \<and> nullReadMessage h ''detail'' = msg)
           \<or> (\<exists>j v. response_json r = Inr j \<and> truthy h (Some v)
                 \<and> (getProp h j ''detail'' = Inr (Some v) \<or> getProp h j ''title'' = Inr (Some v))
                 \<and> (toStringJS h v = Inr msg \<or> toStringJS h v = Inl (ErrorObject msg)))))
     \<and> ((\<exists>m. response_json r = Inl (ErrorObject m))
        \<or> response_json r = Inl OtherValue
        \<or> response_json r = Inr JNull
        \<or> (\<exists>j v. response_json r = Inr j
              \<and> getProp h j ''detail'' = Inr (Some v) \<and> truthy h (Some v))
        \<or> (\<exists>j d v. response_json r = Inr j
              \<and> getProp h j ''detail'' = Inr d \<and> \<not> truthy h d
              \<and> getProp h j ''title'' = Inr (Some v) \<and> truthy h (Some v))
        \<or> (\<exists>j d t. response_json r = Inr j
              \<and> getProp h j ''detail'' = Inr d \<and> \<not> truthy h d
              \<and> getProp h j ''title'' = Inr t \<and> \<not> truthy h t))"
proof (rule conjI)
  from assms(1) obtain s where
    s: "formatCurrency h (amount_value (amount p)) (amount_currency (amount p)) = Inr s"
    and c: "confirmAlert h (refundAlert s p)"
    by (rule refundConfirmed_cases)
  define msg where "msg = caughtMessage
               (case response_json r of
                  Inl e \<Rightarrow> e
                | Inr errorData \<Rightarrow>
                    (case refundErrorMessage h errorData (response_status r) of
                       Inl e \<Rightarrow> e | Inr msg \<Rightarrow> ErrorObject msg))"
  note cs = not_ok_message_cases [where h = h and r = r, folded msg_def]
  let ?W = "w\<lparr>shownToast := Some \<lparr>toast_style = Failure, toast_title = ''Refund Failed'',
                                toast_message = Some msg\<rparr>,
              calls := calls w @ [CallConfirmAlert (refundAlert s p),
                CallShowToast \<lparr>toast_style = Animated, toast_title = ''Processing refund...'',
                                toast_message = None\<rparr>,
                CallFetch (refundRequest tok p)]\<rparr>"
  let ?generic = "''HTTP error! Status: '' @ decimal (response_status r)"
  have run: "handleRefund h tok p w = Inr ?W"
    unfolding msg_def by (rule handleRefund_not_ok [OF s c assms(2,3)])
  have to: "shownToast ?W = Some \<lparr>toast_style = Failure, toast_title = ''Refund Failed'',
                                toast_message = Some msg\<rparr>"
    by simp
  have parse: "\<forall>m. response_json r = Inl (ErrorObject m) \<longrightarrow> msg = m"
    using cs(1) by simp
  have other: "response_json r = Inl OtherValue \<longrightarrow> msg = ''An unknown error occurred.''"
    using cs(2) by simp
  have null: "response_json r = Inr JNull \<longrightarrow> msg = nullReadMessage h ''detail''"
    using cs(3) by simp
  have detail: "\<forall>j v. response_json r = Inr j
                 \<and> getProp h j ''detail'' = Inr (Some v) \<and> truthy h (Some v)
               \<longrightarrow> (\<forall>t. toStringJS h v = Inr t \<longrightarrow> msg = t)
                 \<and> (\<forall>m. toStringJS h v = Inl (ErrorObject m) \<longrightarrow> msg = m)"
    using cs(4,5) by simp
  have title: "\<forall>j d v. response_json r = Inr j
                 \<and> getProp h j ''detail'' = Inr d \<and> \<not> truthy h d
                 \<and> getProp h j ''title'' = Inr (Some v) \<and> truthy h (Some v)
               \<longrightarrow> (\<forall>t. toStringJS h v = Inr t \<longrightarrow> msg = t)
                 \<and> (\<forall>m. toStringJS h v = Inl (ErrorObject m) \<longrightarrow> msg = m)"
    using cs(6,7) by simp
  have generic: "\<forall>j d t. response_json r = Inr j
                 \<and> getProp h j ''detail'' = Inr d \<and> \<not> truthy h d
                 \<and> getProp h j ''title'' = Inr t \<and> \<not> truthy h t
               \<longrightarrow> msg = ?generic"
    using cs(8) by simp
  have operand: "\<forall>j g. response_json r = Inr j
                 \<and> refundErrorOperand h j (response_status r) = Inr (StatusOperand g)
               \<longrightarrow> g = ?generic \<and> msg = g
                 \<and> (\<exists>d t. getProp h j ''detail'' = Inr d \<and> \<not> truthy h d
                       \<and> getProp h j ''title'' = Inr t \<and> \<not> truthy h t)"
    using cs(9) refundErrorOperand_StatusD [of h _ "response_status r"] by blast
  have onscreen: "msg = ?generic \<longrightarrow>
             (\<exists>j d t. response_json r = Inr j
                 \<and> getProp h j ''detail'' = Inr d \<and> \<not> truthy h d
                 \<and> getProp h j ''title'' = Inr t \<and> \<not> truthy h t)
           \<or> response_json r = Inl (ErrorObject msg)
           \<or> (response_json r = Inr JNull \<and> nullReadMessage h ''detail'' = msg)
           \<or> (\<exists>j v. response_json r = Inr j \<and> truthy h (Some v)
                 \<and> (getProp h j ''detail'' = Inr (Some v) \<or> getProp h j ''title'' = Inr (Some v))
                 \<and> (toStringJS h v = Inr msg \<or> toStringJS h v = Inl (ErrorObject msg)))"
  proof
    assume g: "msg = ?generic"
    from response_json_cases [of r h]
    consider (parse) m where "response_json r = Inl (ErrorObject m)"
      | (other) "response_json r = Inl OtherValue"
      | (null) "response_json r = Inr JNull"
      | (detail) j v where "response_json r = Inr j" "getProp h j ''detail'' = Inr (Some v)"
          "truthy h (Some v)"
      | (title) j d v where "response_json r = Inr j" "getProp h j ''detail'' = Inr d"
          "\<not> truthy h d" "getProp h j ''title'' = Inr (Some v)" "truthy h (Some v)"
      | (neither) j d t where "response_json r = Inr j" "getProp h j ''detail'' = Inr d"
          "\<not> truthy h d" "getProp h j ''title'' = Inr t" "\<not> truthy h t"
      by blast
    then show "(\<exists>j d t. response_json r = Inr j
                 \<and> getProp h j ''detail'' = Inr d \<and> \<not> truthy h d
                 \<and> getProp h j ''title'' = Inr t \<and> \<not> truthy h t)
           \<or> response_json r = Inl (ErrorObject msg)
           \<or> (response_json r = Inr JNull \<and> nullReadMessage h ''detail'' = msg)
           \<or> (\<exists>j v. response_json r = Inr j \<and> truthy h (Some v)
                 \<and> (getProp h j ''detail'' = Inr (Some v) \<or> getProp h j ''title'' = Inr (Some v))
                 \<and> (toStringJS h v = Inr msg \<or> toStringJS h v = Inl (ErrorObject msg)))"
    proof cases
      case (parse m)
      with cs(1) show ?thesis by simp
    next
      case other
      with cs(2) g show ?thesis by simp
    next
      case null
      with cs(3) show ?thesis by simp
    next
      case (detail j v)
      from toStringJS_cases [of h v] show ?thesis
      proof
        assume "\<exists>t. toStringJS h v = Inr t"
        then obtain t where t: "toStringJS h v = Inr t" ..
        with cs(4) [OF detail t] detail show ?thesis by blast
      next
        assume t: "toStringJS h v = Inl (ErrorObject (primitiveErrorMessage h))"
        with cs(5) [OF detail t] detail show ?thesis by blast
      qed
    next
      case (title j d v)
      from toStringJS_cases [of h v] show ?thesis
      proof
        assume "\<exists>t. toStringJS h v = Inr t"
        then obtain t where t: "toStringJS h v = Inr t" ..
        with cs(6) [OF title t] title show ?thesis by blast
      next
        assume t: "toStringJS h v = Inl (ErrorObject (primitiveErrorMessage h))"
        with cs(7) [OF title t] title show ?thesis by blast
      qed
    next
      case (neither j d t)
      then show ?thesis by blast
    qed
  qed
  from run to parse other null detail title generic operand onscreen
  have "handleRefund h tok p w = Inr ?W
       \<and> shownToast ?W = Some \<lparr>toast_style = Failure, toast_title = ''Refund Failed'',
                                toast_message = Some msg\<rparr>
       \<and> (\<forall>m. response_json r = Inl (ErrorObject m) \<longrightarrow> msg = m)
       \<and> (response_json r = Inl OtherValue \<longrightarrow> msg = ''An unknown error occurred.'')
       \<and> (response_json r = Inr JNull \<longrightarrow> msg = nullReadMessage h ''detail'')
       \<and> (\<forall>j v. response_json r = Inr j
                 \<and> getProp h j ''detail'' = Inr (Some v) \<and> truthy h (Some v)
               \<longrightarrow> (\<forall>t. toStringJS h v = Inr t \<longrightarrow> msg = t)
                 \<and> (\<forall>m. toStringJS h v = Inl (ErrorObject m) \<longrightarrow> msg = m))
       \<and> (\<forall>j d v. response_json r = Inr j
                 \<and> getProp h j ''detail'' = Inr d \<and> \<not> truthy h d
                 \<and> getProp h j ''title'' = Inr (Some v) \<and> truthy h (Some v)
               \<longrightarrow> (\<forall>t. toStringJS h v = Inr t \<longrightarrow> msg = t)
                 \<and> (\<forall>m. toStringJS h v = Inl (ErrorObject m) \<longrightarrow> msg = m))
       \<and> (\<forall>j d t. response_json r = Inr j
                 \<and> getProp h j ''detail'' = Inr d \<and> \<not> truthy h d
                 \<and> getProp h j ''title'' = Inr t \<and> \<not> truthy h t
               \<longrightarrow> msg = ''HTTP error! Status: '' @ decimal (response_status r))
       \<and> (\<forall>j g. response_json r = Inr j
                 \<and> refundErrorOperand h j (response_status r) = Inr (StatusOperand g)
               \<longrightarrow> g = ''HTTP error! Status: '' @ decimal (response_status r) \<and> msg = g
                 \<and> (\<exists>d t. getProp h j ''detail'' = Inr d \<and> \<not> truthy h d
                       \<and> getProp h j ''title'' = Inr t \<and> \<not> truthy h t))
       \<and> (msg = ''HTTP error! Status: '' @ decimal (response_status r) \<longrightarrow>
             (\<exists>j d t. response_json r = Inr j
                 \<and> getProp h j ''detail'' = Inr d \<and> \<not> truthy h d
                 \<and> getProp h j ''title'' = Inr t \<and> \<not> truthy h t)
           \<or> response_json r = Inl (ErrorObject msg)
           \<or> (response_json r = Inr JNull \<and> nullReadMessage h ''detail'' = msg)
           \<or> (\<exists>j v. response_json r = Inr j \<and> truthy h (Some v)
                 \<and> (getProp h j ''detail'' = Inr (Some v) \<or> getProp h j ''title'' = Inr (Some v))
                 \<and> (toStringJS h v = Inr msg \<or> toStringJS h v = Inl (ErrorObject msg))))"
    by (intro conjI)
  then show "\<exists>w' msg. handleRefund h tok p w = Inr w'
       \<and> shownToast w' = Some \<lparr>toast_style = Failure, toast_title = ''Refund Failed'',
                                toast_message = Some msg\<rparr>
       \<and> (\<forall>m. response_json r = Inl (ErrorObject m) \<longrightarrow> msg = m)
       \<and> (response_json r = Inl OtherValue \<longrightarrow> msg = ''An unknown error occurred.'')
       \<and> (response_json r = Inr JNull \<longrightarrow> msg = nullReadMessage h ''detail'')
       \<and> (\<forall>j v. response_json r = Inr j
                 \<and> getProp h j ''detail'' = Inr (Some v) \<and> truthy h (Some v)
               \<longrightarrow> (\<forall>t. toStringJS h v = Inr t \<longrightarrow> msg = t)
                 \<and> (\<forall>m. toStringJS h v = Inl (ErrorObject m) \<longrightarrow> msg = m))
       \<and> (\<forall>j d v. response_json r = Inr j
                 \<and> getProp h j ''detail'' = Inr d \<and> \<not> truthy h d
                 \<and> getProp h j ''title'' = Inr (Some v) \<and> truthy h (Some v)
               \<longrightarrow> (\<forall>t. toStringJS h v = Inr t \<longrightarrow> msg = t)
                 \<and> (\<forall>m. toStringJS h v = Inl (ErrorObject m) \<longrightarrow> msg = m))
       \<and> (\<forall>j d t. response_json r = Inr j
                 \<and> getProp h j ''detail'' = Inr d \<and> \<not> truthy h d
                 \<and> getProp h j ''title'' = Inr t \<and> \<not> truthy h t
               \<longrightarrow> msg = ''HTTP error! Status: '' @ decimal (response_status r))
       \<and> (\<forall>j g. response_json r = Inr j
                 \<and> refundErrorOperand h j (response_status r) = Inr (StatusOperand g)
               \<longrightarrow> g = ''HTTP error! Status: '' @ decimal (response_status r) \<and> msg = g
                 \<and> (\<exists>d t. getProp h j ''detail'' = Inr d \<and> \<not> truthy h d
                       \<and> getProp h j ''title'' = Inr t \<and> \<not> truthy h t))
       \<and> (msg = ''HTTP error! Status: '' @ decimal (response_status r) \<longrightarrow>
             (\<exists>j d t. response_json r = Inr j
                 \<and> getProp h j ''detail'' = Inr d \<and> \<not> truthy h d
                 \<and> getProp h j ''title'' = Inr t \<and> \<not> truthy h t)
           \<or> response_json r = Inl (ErrorObject msg)
           \<or> (response_json r = Inr JNull \<and> nullReadMessage h ''detail'' = msg)
           \<or> (\<exists>j v. response_json r = Inr j \<and> truthy h (Some v)
                 \<and> (getProp h j ''detail'' = Inr (Some v) \<or> getProp h j ''title'' = Inr (Some v))
                 \<and> (toStringJS h v = Inr msg \<or> toStringJS h v = Inl (ErrorObject msg))))"
    by (intro exI)
qed (rule response_json_cases)

text \<open>
  A 502 whose body is not JSON surfaces the parse error's message; a 500 whose body has an
  empty \<open>detail\<close> and no \<open>title\<close> surfaces "HTTP error! Status: 500".
\<close>

theorem not_ok_refund_message_witness:
  "refundConfirmed badGatewayHost payMorning
   \<and> (\<exists>w'. handleRefund badGatewayHost ''token'' payMorning emptyWorld = Inr w'
        \<and> shownToast w' = Some \<lparr>toast_style = Failure, toast_title = ''Refund Failed'',
             toast_message = Some ''Unexpected token < in JSON at position 0''\<rparr>)
   \<and> refundConfirmed serverErrorHost payMorning
   \<and> (\<exists>w'. handleRefund serverErrorHost ''token'' payMorning emptyWorld = Inr w'
        \<and> shownToast w' = Some \<lparr>toast_style = Failure, toast_title = ''Refund Failed'',
             toast_message = Some ''HTTP error! Status: 500''\<rparr>)"
proof -
  let ?r = "\<lparr>response_status = 502,
          response_json = Inl (ErrorObject ''Unexpected token < in JSON at position 0'')\<rparr>
           :: int response"
  let ?q = "\<lparr>response_status = 500, response_json = Inr (JObject [(''detail'', JString [])])\<rparr>
           :: int response"
  have c: "refundConfirmed badGatewayHost payMorning"
    by (simp add: refundConfirmed_def confirmed_utcHost)
       (simp add: badGatewayHost_def utcHost_def)
  have f: "fetch badGatewayHost (refundRequest ''token'' payMorning) = FetchResolved ?r"
    by (simp add: badGatewayHost_def)
  have nok: "\<not> response_ok ?r"
    by (simp add: response_ok_def)
  from not_ok_refund_message [OF c f nok, of emptyWorld, THEN conjunct1]
  obtain w' msg where
    run: "handleRefund badGatewayHost ''token'' payMorning emptyWorld = Inr w'"
    and to: "shownToast w' = Some \<lparr>toast_style = Failure, toast_title = ''Refund Failed'',
                                toast_message = Some msg\<rparr>"
    and parse: "\<forall>m. response_json ?r = Inl (ErrorObject m) \<longrightarrow> msg = m"
    by (elim exE conjE) (rule that)
  from parse have "msg = ''Unexpected token < in JSON at position 0''"
    by simp
  with run to have first: "\<exists>w'. handleRefund badGatewayHost ''token'' payMorning emptyWorld = Inr w'
        \<and> shownToast w' = Some \<lparr>toast_style = Failure, toast_title = ''Refund Failed'',
             toast_message = Some ''Unexpected token < in JSON at position 0''\<rparr>"
    by simp
  have c2: "refundConfirmed serverErrorHost payMorning"
    by (simp add: refundConfirmed_def confirmed_utcHost)
       (simp add: serverErrorHost_def utcHost_def)
  have f2: "fetch serverErrorHost (refundRequest ''token'' payMorning) = FetchResolved ?q"
    by (simp add: serverErrorHost_def)
  have nok2: "\<not> response_ok ?q"
    by (simp add: response_ok_def)
  from not_ok_refund_message [OF c2 f2 nok2, of emptyWorld, THEN conjunct1]
  obtain w2 msg2 where
    run2: "handleRefund serverErrorHost ''token'' payMorning emptyWorld = Inr w2"
    and to2: "shownToast w2 = Some \<lparr>toast_style = Failure, toast_title = ''Refund Failed'',
                                toast_message = Some msg2\<rparr>"
    and generic: "\<forall>j d t. response_json ?q = Inr j
                 \<and> getProp serverErrorHost j ''detail'' = Inr d \<and> \<not> truthy serverErrorHost d
                 \<and> getProp serverErrorHost j ''title'' = Inr t \<and> \<not> truthy serverErrorHost t
               \<longrightarrow> msg2 = ''HTTP error! Status: '' @ decimal (response_status ?q)"
    by (elim exE conjE) (rule that)
  from generic [rule_format, of "JObject [(''detail'', JString [])]" "Some (JString [])" None]
  have "msg2 = ''HTTP error! Status: 500''"
    by (simp add: decimal.simps)
  with run2 to2 have "\<exists>w'. handleRefund serverErrorHost ''token'' payMorning emptyWorld = Inr w'
        \<and> shownToast w' = Some \<lparr>toast_style = Failure, toast_title = ''Refund Failed'',
             toast_message = Some ''HTTP error! Status: 500''\<rparr>"
    by simp
  with first c c2 show ?thesis by simp
qed

section \<open>Properties of the date formatter\<close>

text \<open>
  C9. For a timestamp that parses to a valid time \<open>t\<close>, with today's local midnight \<open>m\<close>:
  if the local midnight of \<open>t\<close> is \<open>m\<close>, \<open>formatDateTime\<close> returns the time-of-day string
  of \<open>t\<close> (hour and minute); otherwise it returns the date string of \<open>t\<close> (day and short
  month). A timestamp at exactly today's local midnight, which is its own local midnight,
  is rendered as a time of day.
\<close>

theorem formatDateTime_today_or_other_day:
  assumes "dateParse h s = Some t" and "localMidnight h now = Some m"
  shows "(localMidnight h t = Some m \<longrightarrow> formatDateTime h now s = toLocaleTimeString h t)
       \<and> (localMidnight h t \<noteq> Some m \<longrightarrow> formatDateTime h now s = toLocaleDateString h t)
       \<and> (t = m \<and> localMidnight h m = Some m \<longrightarrow>
            formatDateTime h now s = toLocaleTimeString h m)"
  using assms
  by (auto simp: formatDateTime_def time_strict_eq_def split: option.splits)

theorem formatDateTime_today_or_other_day_witness:
  "dateParse utcHost ''2024-05-02T00:00:00Z'' = Some 1714608000000
   \<and> localMidnight utcHost utcNow = Some 1714608000000
   \<and> localMidnight utcHost 1714608000000 = Some 1714608000000
   \<and> formatDateTime utcHost utcNow ''2024-05-02T00:00:00Z'' = ''00:00''
   \<and> dateParse utcHost ''2024-05-01T12:00:00Z'' = Some 1714564800000
   \<and> localMidnight utcHost 1714564800000 \<noteq> Some 1714608000000
   \<and> formatDateTime utcHost utcNow ''2024-05-01T12:00:00Z'' = ''01 mei''"
proof -
  have p1: "dateParse utcHost ''2024-05-02T00:00:00Z'' = Some 1714608000000"
    by (simp add: utcHost_def)
  have p2: "dateParse utcHost ''2024-05-01T12:00:00Z'' = Some 1714564800000"
    by (simp add: utcHost_def)
  have m: "localMidnight utcHost utcNow = Some 1714608000000"
    by (simp add: utcHost_def utcNow_def)
  have m1: "localMidnight utcHost 1714608000000 = Some 1714608000000"
    by (simp add: utcHost_def)
  have m2: "localMidnight utcHost 1714564800000 \<noteq> Some 1714608000000"
    by (simp add: utcHost_def)
  have t1: "toLocaleTimeString utcHost 1714608000000 = ''00:00''"
    by (simp add: utcHost_def twoDigits_def decimal.simps)
  have t2: "toLocaleDateString utcHost 1714564800000 = ''01 mei''"
    by (simp add: utcHost_def)
  from formatDateTime_today_or_other_day [OF p1 m] m1 t1
  have "formatDateTime utcHost utcNow ''2024-05-02T00:00:00Z'' = ''00:00''"
    by simp
  moreover from formatDateTime_today_or_other_day [OF p2 m] m2 t2
  have "formatDateTime utcHost utcNow ''2024-05-01T12:00:00Z'' = ''01 mei''"
    by simp
  ultimately show ?thesis using p1 p2 m m1 m2 by simp
qed

end
